theory Spec2Isabelle
  imports Main "HOL-Library.AList"
begin

section \<open>Multi-channel notification dispatcher (interfaces/interface.go)\<close>

text \<open>
  A shallow embedding of the dispatch core of \<^verbatim>\<open>src/interfaces/interface.go\<close>:
  the three backends (\<^verbatim>\<open>EmailNotificador\<close>, \<^verbatim>\<open>SMSNotificador\<close>, \<^verbatim>\<open>SlackNotificador\<close>),
  their record stores, and the service \<^verbatim>\<open>ServicioNotificaciones\<close> with its two
  broadcasts.

  Conventions of the embedding.
  \<^item> A Go \<^verbatim>\<open>string\<close> is a byte sequence, here a \<open>string\<close> (a list of 8-bit \<open>char\<close>);
    \<open>length\<close> is Go's \<^verbatim>\<open>len\<close>. Letters outside ASCII in the source's literals are
    written as the two bytes of their UTF-8 encoding.
  \<^item> A Go \<^verbatim>\<open>error\<close> is \<open>string option\<close>: \<open>None\<close> is \<^verbatim>\<open>nil\<close>, \<open>Some msg\<close> is an
    error whose \<^verbatim>\<open>Error()\<close> text is \<open>msg\<close>.
  \<^item> Backends are heap objects reached through pointers. The world holds one store of
    objects per struct type, indexed by address; an interface value is a dynamic
    type together with an address. Interface values are non-nil and every address
    holds an object with an allocated \<^verbatim>\<open>registros\<close> map, as the constructors build them.
  \<^item> \<^verbatim>\<open>time.Now()\<close> is a read of an arbitrary sequence of clock readings carried
    by the world; each call consumes one reading. \<^verbatim>\<open>time.Sleep\<close> has no other effect.
  \<^item> Standard output is a list of structured lines.
  \<^item> \<open>llamadas\<close> is a ghost history of the invocations of \<^verbatim>\<open>EnviarNotificacion\<close>;
    no statement of the program reads it.
\<close>

subsection \<open>Strings and formatting\<close>

type_synonym error = "string option"

abbreviation a_acento :: string where "a_acento \<equiv> [CHR 0xC3, CHR 0xA1]"
abbreviation e_acento :: string where "e_acento \<equiv> [CHR 0xC3, CHR 0xA9]"
abbreviation i_acento :: string where "i_acento \<equiv> [CHR 0xC3, CHR 0xAD]"
abbreviation o_acento :: string where "o_acento \<equiv> [CHR 0xC3, CHR 0xB3]"
abbreviation u_acento :: string where "u_acento \<equiv> [CHR 0xC3, CHR 0xBA]"

text \<open>The verb \<^verbatim>\<open>%d\<close> of \<^verbatim>\<open>fmt\<close>: decimal digits, with a minus sign when negative.\<close>

fun digitos :: "nat \<Rightarrow> string" where
  "digitos n =
     (if n < 10 then [''0123456789'' ! n]
      else digitos (n div 10) @ [''0123456789'' ! (n mod 10)])"

declare digitos.simps [simp del]

definition fmt_d :: "int \<Rightarrow> string" where
  "fmt_d i = (if i < 0 then ''-'' @ digitos (nat (- i)) else digitos (nat i))"

text \<open>\<^verbatim>\<open>strings.Contains(s, c)\<close> for a one-byte \<^verbatim>\<open>c\<close>, and \<^verbatim>\<open>strings.HasPrefix\<close>.\<close>

definition Contains :: "string \<Rightarrow> char \<Rightarrow> bool" where
  "Contains s c = (c \<in> set s)"

fun HasPrefix :: "string \<Rightarrow> string \<Rightarrow> bool" where
  "HasPrefix s [] = True"
| "HasPrefix [] (p # ps) = False"
| "HasPrefix (c # cs) (p # ps) = (c = p \<and> HasPrefix cs ps)"

subsection \<open>Data model\<close>

datatype TipoNotificacion = Email | SMS | Push | Slack

datatype EstadoNotificacion = Pendiente | Enviada | Fallida | Entregada

text \<open>The conversion \<^verbatim>\<open>string(registro.Estado)\<close>.\<close>

fun estado_string :: "EstadoNotificacion \<Rightarrow> string" where
  "estado_string Pendiente = ''pendiente''"
| "estado_string Enviada = ''enviada''"
| "estado_string Fallida = ''fallida''"
| "estado_string Entregada = ''entregada''"

record RegistroNotificacion =
  ID :: string
  Tipo :: TipoNotificacion
  Destinatario :: string
  Mensaje :: string
  Estado :: EstadoNotificacion
  Timestamp :: int
  Intentos :: int
  Error :: string

record ConfiguracionNotificacion =
  MaxIntentos :: int
  TimeoutSegundos :: int
  ReintentoAuto :: bool

text \<open>
  A \<^verbatim>\<open>map[string]*RegistroNotificacion\<close> is an association list: \<^verbatim>\<open>m[k] = v\<close> is
  \<open>AList.update\<close>, a lookup is \<open>map_of\<close>, an assignment through the stored pointer is
  \<open>AList.map_entry\<close>, and \<^verbatim>\<open>range\<close> visits the entries (in an order the counting
  below does not depend on).
\<close>

type_synonym registros_t = "(string \<times> RegistroNotificacion) list"

record EmailNotificador =
  servidor :: string
  puerto :: int
  usuario :: string
  password :: string
  configuracion :: ConfiguracionNotificacion
  registros :: registros_t

record SMSNotificador =
  apiKey :: string
  proveedor :: string
  registrosSMS :: registros_t

record SlackNotificador =
  webhook :: string
  canal :: string

text \<open>Interface values: the dynamic type and the pointer.\<close>

datatype Notificador = PEmail nat | PSMS nat | PSlack nat

datatype ValidadorMensaje = VEmail nat | VSMS nat

datatype Rastreador = REmail nat | RSMS nat

datatype Logger = LEmail nat | LSMS nat

datatype Linea =
    LineaLog int string string string
  | LineaSlack string string string

record Mundo =
  emails :: "nat \<Rightarrow> EmailNotificador"
  smss :: "nat \<Rightarrow> SMSNotificador"
  slacks :: "nat \<Rightarrow> SlackNotificador"
  reloj :: "nat \<Rightarrow> int"
  lecturas :: nat
  salida :: "Linea list"
  llamadas :: "(Notificador \<times> string \<times> string) list"

text \<open>\<^verbatim>\<open>time.Now()\<close>, read as \<^verbatim>\<open>UnixNano()\<close>: the next clock reading.\<close>

definition ahora :: "Mundo \<Rightarrow> int \<times> Mundo" where
  "ahora w = (reloj w (lecturas w), w\<lparr>lecturas := Suc (lecturas w)\<rparr>)"

definition imprimir :: "Linea \<Rightarrow> Mundo \<Rightarrow> Mundo" where
  "imprimir l w = w\<lparr>salida := salida w @ [l]\<rparr>"

definition anotar_llamada :: "Notificador \<Rightarrow> string \<Rightarrow> string \<Rightarrow> Mundo \<Rightarrow> Mundo" where
  "anotar_llamada n destinatario mensaje w =
     w\<lparr>llamadas := llamadas w @ [(n, destinatario, mensaje)]\<rparr>"

subsection \<open>EmailNotificador\<close>

definition NuevoEmailNotificador ::
  "nat \<Rightarrow> string \<Rightarrow> int \<Rightarrow> string \<Rightarrow> string \<Rightarrow> Mundo \<Rightarrow> Mundo" where
  "NuevoEmailNotificador a srv prt usr pwd w =
     w\<lparr>emails := (emails w)(a :=
        \<lparr>servidor = srv, puerto = prt, usuario = usr, password = pwd,
         configuracion = \<lparr>MaxIntentos = 3, TimeoutSegundos = 30, ReintentoAuto = True\<rparr>,
         registros = []\<rparr>)\<rparr>"

definition Log_email :: "string \<Rightarrow> string \<Rightarrow> Mundo \<Rightarrow> Mundo" where
  "Log_email nivel mensaje w =
     (let (t, w1) = ahora w in imprimir (LineaLog t ''EMAIL'' nivel mensaje) w1)"

definition LogError_email :: "string \<Rightarrow> Mundo \<Rightarrow> Mundo" where
  "LogError_email err w = Log_email ''ERROR'' err w"

definition LogInfo_email :: "string \<Rightarrow> Mundo \<Rightarrow> Mundo" where
  "LogInfo_email mensaje w = Log_email ''INFO'' mensaje w"

definition ValidarMensaje_email :: "string \<Rightarrow> error" where
  "ValidarMensaje_email mensaje =
     (if length mensaje = 0 then Some (''mensaje no puede estar vac'' @ i_acento @ ''o'')
      else if length mensaje > 1000
        then Some (''mensaje muy largo (m'' @ a_acento @ ''ximo 1000 caracteres)'')
      else None)"

definition ValidarDestinatario_email :: "string \<Rightarrow> error" where
  "ValidarDestinatario_email destinatario =
     (if \<not> Contains destinatario CHR ''@''
        then Some (''email inv'' @ a_acento @ ''lido: debe contener @'')
      else if \<not> Contains destinatario CHR ''.''
        then Some (''email inv'' @ a_acento @ ''lido: debe contener dominio'')
      else None)"

definition poner_registros_email :: "nat \<Rightarrow> (registros_t \<Rightarrow> registros_t) \<Rightarrow> Mundo \<Rightarrow> Mundo" where
  "poner_registros_email a f w =
     w\<lparr>emails := (emails w)(a := (emails w a)\<lparr>registros := f (registros (emails w a))\<rparr>)\<rparr>"

text \<open>Lines 132 to 143: the identifier, the record in state \<open>Pendiente\<close>, the store.\<close>

definition registrar_email :: "nat \<Rightarrow> string \<Rightarrow> string \<Rightarrow> Mundo \<Rightarrow> string \<times> Mundo" where
  "registrar_email a destinatario mensaje w =
     (let (t1, w1) = ahora w;
          ident = ''email_'' @ fmt_d t1;
          (t2, w2) = ahora w1;
          registro = \<lparr>ID = ident, Tipo = Email, Destinatario = destinatario,
                      Mensaje = mensaje, Estado = Pendiente, Timestamp = t2,
                      Intentos = 1, Error = []\<rparr>
      in (ident, poner_registros_email a (AList.update ident registro) w2))"

text \<open>Lines 145 to 159: the simulated delivery and the final state of the record.\<close>

definition entregar_email :: "nat \<Rightarrow> string \<Rightarrow> string \<Rightarrow> Mundo \<Rightarrow> error \<times> Mundo" where
  "entregar_email a ident destinatario w =
     (let w1 = LogInfo_email (''Enviando email a '' @ destinatario) w;
          (t, w2) = ahora w1
      in if t mod 10 = 0 then
           (let w3 = poner_registros_email a
                       (AList.map_entry ident
                          (\<lambda>r. r\<lparr>Estado := Fallida, Error := ''Servidor SMTP no disponible''\<rparr>)) w2;
                w4 = LogError_email ''Servidor SMTP no disponible'' w3
            in (Some ''fallo al enviar email'', w4))
         else
           (let w3 = poner_registros_email a
                       (AList.map_entry ident (\<lambda>r. r\<lparr>Estado := Enviada\<rparr>)) w2;
                w4 = LogInfo_email (''Email enviado exitosamente: '' @ ident) w3
            in (None, w4)))"

definition EnviarNotificacion_email :: "nat \<Rightarrow> string \<Rightarrow> string \<Rightarrow> Mundo \<Rightarrow> error \<times> Mundo" where
  "EnviarNotificacion_email a destinatario mensaje w0 =
     (let w = anotar_llamada (PEmail a) destinatario mensaje w0 in
      case ValidarDestinatario_email destinatario of
        Some err \<Rightarrow> (Some err, w)
      | None \<Rightarrow>
         (case ValidarMensaje_email mensaje of
            Some err \<Rightarrow> (Some err, w)
          | None \<Rightarrow>
             (let (ident, w1) = registrar_email a destinatario mensaje w
              in entregar_email a ident destinatario w1)))"

definition ObtenerEstado_email :: "nat \<Rightarrow> string \<Rightarrow> Mundo \<Rightarrow> (string \<times> error) \<times> Mundo" where
  "ObtenerEstado_email a ident w =
     (case map_of (registros (emails w a)) ident of
        Some registro \<Rightarrow> ((estado_string (Estado registro), None), w)
      | None \<Rightarrow> (([], Some (''notificaci'' @ o_acento @ ''n no encontrada'')), w))"

text \<open>\<^verbatim>\<open>stats[k]++\<close> on a \<^verbatim>\<open>map[string]int\<close>: a missing key reads as 0.\<close>

definition incr :: "string \<Rightarrow> (string \<rightharpoonup> int) \<Rightarrow> (string \<rightharpoonup> int)" where
  "incr k stats = stats(k \<mapsto> (case stats k of None \<Rightarrow> 0 | Some c \<Rightarrow> c) + 1)"

definition contar_email :: "RegistroNotificacion \<Rightarrow> (string \<rightharpoonup> int) \<Rightarrow> (string \<rightharpoonup> int)" where
  "contar_email registro stats =
     (let stats1 = incr ''total'' stats in
      case Estado registro of
        Enviada \<Rightarrow> incr ''enviadas'' stats1
      | Fallida \<Rightarrow> incr ''fallidas'' stats1
      | Pendiente \<Rightarrow> incr ''pendientes'' stats1
      | Entregada \<Rightarrow> stats1)"

definition ObtenerEstadisticas_email :: "nat \<Rightarrow> Mundo \<Rightarrow> (string \<rightharpoonup> int) \<times> Mundo" where
  "ObtenerEstadisticas_email a w =
     (let stats = [''total'' \<mapsto> 0, ''enviadas'' \<mapsto> 0, ''fallidas'' \<mapsto> 0, ''pendientes'' \<mapsto> 0]
      in (fold (\<lambda>(k, registro). contar_email registro) (registros (emails w a)) stats, w))"

subsection \<open>SMSNotificador\<close>

definition NuevoSMSNotificador :: "nat \<Rightarrow> string \<Rightarrow> string \<Rightarrow> Mundo \<Rightarrow> Mundo" where
  "NuevoSMSNotificador a k prov w =
     w\<lparr>smss := (smss w)(a := \<lparr>apiKey = k, proveedor = prov, registrosSMS = []\<rparr>)\<rparr>"

definition Log_sms :: "string \<Rightarrow> string \<Rightarrow> Mundo \<Rightarrow> Mundo" where
  "Log_sms nivel mensaje w =
     (let (t, w1) = ahora w in imprimir (LineaLog t ''SMS'' nivel mensaje) w1)"

definition LogError_sms :: "string \<Rightarrow> Mundo \<Rightarrow> Mundo" where
  "LogError_sms err w = Log_sms ''ERROR'' err w"

definition LogInfo_sms :: "string \<Rightarrow> Mundo \<Rightarrow> Mundo" where
  "LogInfo_sms mensaje w = Log_sms ''INFO'' mensaje w"

definition ValidarMensaje_sms :: "string \<Rightarrow> error" where
  "ValidarMensaje_sms mensaje =
     (if length mensaje = 0 then Some (''mensaje SMS no puede estar vac'' @ i_acento @ ''o'')
      else if length mensaje > 160
        then Some (''mensaje SMS muy largo (m'' @ a_acento @ ''ximo 160 caracteres)'')
      else None)"

definition ValidarDestinatario_sms :: "string \<Rightarrow> error" where
  "ValidarDestinatario_sms destinatario =
     (if length destinatario < 10
        then Some (''n'' @ u_acento @ ''mero de tel'' @ e_acento @ ''fono muy corto'')
      else if \<not> HasPrefix destinatario ''+'' \<and> \<not> HasPrefix destinatario ''0''
        then Some (''n'' @ u_acento @ ''mero debe empezar con + o 0'')
      else None)"

definition poner_registros_sms :: "nat \<Rightarrow> (registros_t \<Rightarrow> registros_t) \<Rightarrow> Mundo \<Rightarrow> Mundo" where
  "poner_registros_sms a f w =
     w\<lparr>smss := (smss w)(a := (smss w a)\<lparr>registrosSMS := f (registrosSMS (smss w a))\<rparr>)\<rparr>"

text \<open>Lines 252 to 262.\<close>

definition registrar_sms :: "nat \<Rightarrow> string \<Rightarrow> string \<Rightarrow> Mundo \<Rightarrow> string \<times> Mundo" where
  "registrar_sms a destinatario mensaje w =
     (let (t1, w1) = ahora w;
          ident = ''sms_'' @ fmt_d t1;
          (t2, w2) = ahora w1;
          registro = \<lparr>ID = ident, Tipo = SMS, Destinatario = destinatario,
                      Mensaje = mensaje, Estado = Pendiente, Timestamp = t2,
                      Intentos = 1, Error = []\<rparr>
      in (ident, poner_registros_sms a (AList.update ident registro) w2))"

text \<open>Lines 264 to 277.\<close>

definition entregar_sms :: "nat \<Rightarrow> string \<Rightarrow> string \<Rightarrow> Mundo \<Rightarrow> error \<times> Mundo" where
  "entregar_sms a ident destinatario w =
     (let w1 = LogInfo_sms (''Enviando SMS a '' @ destinatario @ '' via ''
                              @ proveedor (smss w a)) w;
          (t, w2) = ahora w1
      in if t mod 20 = 0 then
           (let w3 = poner_registros_sms a
                       (AList.map_entry ident
                          (\<lambda>r. r\<lparr>Estado := Fallida,
                                 Error := ''N'' @ u_acento @ ''mero no v'' @ a_acento @ ''lido''\<rparr>)) w2;
                w4 = LogError_sms (''N'' @ u_acento @ ''mero no v'' @ a_acento @ ''lido'') w3
            in (Some ''fallo al enviar SMS'', w4))
         else
           (let w3 = poner_registros_sms a
                       (AList.map_entry ident (\<lambda>r. r\<lparr>Estado := Enviada\<rparr>)) w2;
                w4 = LogInfo_sms (''SMS enviado exitosamente: '' @ ident) w3
            in (None, w4)))"

definition EnviarNotificacion_sms :: "nat \<Rightarrow> string \<Rightarrow> string \<Rightarrow> Mundo \<Rightarrow> error \<times> Mundo" where
  "EnviarNotificacion_sms a destinatario mensaje w0 =
     (let w = anotar_llamada (PSMS a) destinatario mensaje w0 in
      case ValidarDestinatario_sms destinatario of
        Some err \<Rightarrow> (Some err, w)
      | None \<Rightarrow>
         (case ValidarMensaje_sms mensaje of
            Some err \<Rightarrow> (Some err, w)
          | None \<Rightarrow>
             (let (ident, w1) = registrar_sms a destinatario mensaje w
              in entregar_sms a ident destinatario w1)))"

definition ObtenerEstado_sms :: "nat \<Rightarrow> string \<Rightarrow> Mundo \<Rightarrow> (string \<times> error) \<times> Mundo" where
  "ObtenerEstado_sms a ident w =
     (case map_of (registrosSMS (smss w a)) ident of
        Some registro \<Rightarrow> ((estado_string (Estado registro), None), w)
      | None \<Rightarrow> (([], Some ''SMS no encontrado''), w))"

definition contar_sms :: "RegistroNotificacion \<Rightarrow> (string \<rightharpoonup> int) \<Rightarrow> (string \<rightharpoonup> int)" where
  "contar_sms registro stats =
     (let stats1 = incr ''total'' stats in
      case Estado registro of
        Enviada \<Rightarrow> incr ''enviados'' stats1
      | Fallida \<Rightarrow> incr ''fallidos'' stats1
      | Pendiente \<Rightarrow> incr ''pendientes'' stats1
      | Entregada \<Rightarrow> stats1)"

definition ObtenerEstadisticas_sms :: "nat \<Rightarrow> Mundo \<Rightarrow> (string \<rightharpoonup> int) \<times> Mundo" where
  "ObtenerEstadisticas_sms a w =
     (let stats = [''total'' \<mapsto> 0, ''enviados'' \<mapsto> 0, ''fallidos'' \<mapsto> 0, ''pendientes'' \<mapsto> 0]
      in (fold (\<lambda>(k, registro). contar_sms registro) (registrosSMS (smss w a)) stats, w))"

subsection \<open>SlackNotificador\<close>

definition NuevoSlackNotificador :: "nat \<Rightarrow> string \<Rightarrow> string \<Rightarrow> Mundo \<Rightarrow> Mundo" where
  "NuevoSlackNotificador a hook c w =
     w\<lparr>slacks := (slacks w)(a := \<lparr>webhook = hook, canal = c\<rparr>)\<rparr>"

definition EnviarNotificacion_slack :: "nat \<Rightarrow> string \<Rightarrow> string \<Rightarrow> Mundo \<Rightarrow> error \<times> Mundo" where
  "EnviarNotificacion_slack a destinatario mensaje w0 =
     (let w = anotar_llamada (PSlack a) destinatario mensaje w0
      in (None, imprimir (LineaSlack (canal (slacks w a)) destinatario mensaje) w))"

subsection \<open>Interfaces: dynamic dispatch and type assertions\<close>

fun EnviarNotificacion :: "Notificador \<Rightarrow> string \<Rightarrow> string \<Rightarrow> Mundo \<Rightarrow> error \<times> Mundo" where
  "EnviarNotificacion (PEmail a) d m w = EnviarNotificacion_email a d m w"
| "EnviarNotificacion (PSMS a) d m w = EnviarNotificacion_sms a d m w"
| "EnviarNotificacion (PSlack a) d m w = EnviarNotificacion_slack a d m w"

declare EnviarNotificacion.simps [simp del]

text \<open>The assertion \<^verbatim>\<open>notificador.(ValidadorMensaje)\<close>; \<open>None\<close> is \<^verbatim>\<open>implementa == false\<close>.\<close>

fun como_ValidadorMensaje :: "Notificador \<Rightarrow> ValidadorMensaje option" where
  "como_ValidadorMensaje (PEmail a) = Some (VEmail a)"
| "como_ValidadorMensaje (PSMS a) = Some (VSMS a)"
| "como_ValidadorMensaje (PSlack a) = None"

fun ValidarMensaje :: "ValidadorMensaje \<Rightarrow> string \<Rightarrow> error" where
  "ValidarMensaje (VEmail a) m = ValidarMensaje_email m"
| "ValidarMensaje (VSMS a) m = ValidarMensaje_sms m"

fun ValidarDestinatario :: "ValidadorMensaje \<Rightarrow> string \<Rightarrow> error" where
  "ValidarDestinatario (VEmail a) d = ValidarDestinatario_email d"
| "ValidarDestinatario (VSMS a) d = ValidarDestinatario_sms d"

fun como_Rastreador :: "Notificador \<Rightarrow> Rastreador option" where
  "como_Rastreador (PEmail a) = Some (REmail a)"
| "como_Rastreador (PSMS a) = Some (RSMS a)"
| "como_Rastreador (PSlack a) = None"

fun ObtenerEstado :: "Rastreador \<Rightarrow> string \<Rightarrow> Mundo \<Rightarrow> (string \<times> error) \<times> Mundo" where
  "ObtenerEstado (REmail a) i w = ObtenerEstado_email a i w"
| "ObtenerEstado (RSMS a) i w = ObtenerEstado_sms a i w"

fun ObtenerEstadisticas :: "Rastreador \<Rightarrow> Mundo \<Rightarrow> (string \<rightharpoonup> int) \<times> Mundo" where
  "ObtenerEstadisticas (REmail a) w = ObtenerEstadisticas_email a w"
| "ObtenerEstadisticas (RSMS a) w = ObtenerEstadisticas_sms a w"

fun LogError :: "Logger \<Rightarrow> string \<Rightarrow> Mundo \<Rightarrow> Mundo" where
  "LogError (LEmail a) err w = LogError_email err w"
| "LogError (LSMS a) err w = LogError_sms err w"

fun LogInfo :: "Logger \<Rightarrow> string \<Rightarrow> Mundo \<Rightarrow> Mundo" where
  "LogInfo (LEmail a) m w = LogInfo_email m w"
| "LogInfo (LSMS a) m w = LogInfo_sms m w"

text \<open>The verb \<^verbatim>\<open>%T\<close>: the name of the dynamic type.\<close>

fun nombre_tipo :: "Notificador \<Rightarrow> string" where
  "nombre_tipo (PEmail a) = ''*main.EmailNotificador''"
| "nombre_tipo (PSMS a) = ''*main.SMSNotificador''"
| "nombre_tipo (PSlack a) = ''*main.SlackNotificador''"

text \<open>The verb \<^verbatim>\<open>%v\<close> on an error: its text, or \<^verbatim>\<open><nil>\<close>.\<close>

fun fmt_v :: "error \<Rightarrow> string" where
  "fmt_v None = ''<nil>''"
| "fmt_v (Some msg) = msg"

subsection \<open>ServicioNotificaciones\<close>

record ServicioNotificaciones =
  notificadores :: "Notificador list"
  logger :: "Logger option"

type_synonym resultados_t = "string \<rightharpoonup> error"

definition NuevoServicioNotificaciones :: ServicioNotificaciones where
  "NuevoServicioNotificaciones = \<lparr>notificadores = [], logger = None\<rparr>"

definition AgregarNotificador ::
  "ServicioNotificaciones \<Rightarrow> Notificador \<Rightarrow> Mundo \<Rightarrow> ServicioNotificaciones \<times> Mundo" where
  "AgregarNotificador sn notificador w =
     (let sn1 = sn\<lparr>notificadores := notificadores sn @ [notificador]\<rparr>
      in case logger sn1 of
           Some l \<Rightarrow> (sn1, LogInfo l (''Notificador agregado: '' @ nombre_tipo notificador) w)
         | None \<Rightarrow> (sn1, w))"

definition EstablecerLogger :: "ServicioNotificaciones \<Rightarrow> Logger \<Rightarrow> ServicioNotificaciones" where
  "EstablecerLogger sn l = sn\<lparr>logger := Some l\<rparr>"

text \<open>The body of the loop of \<^verbatim>\<open>EnviarATodos\<close> (lines 401 to 413), then the loop.\<close>

definition EnviarATodos_paso ::
  "Logger option \<Rightarrow> string \<Rightarrow> string \<Rightarrow> Notificador \<Rightarrow> resultados_t \<times> Mundo
     \<Rightarrow> resultados_t \<times> Mundo" where
  "EnviarATodos_paso lg destinatario mensaje notificador rw =
     (let (resultados, w) = rw;
          tipoNotificador = nombre_tipo notificador;
          (err, w1) = EnviarNotificacion notificador destinatario mensaje w;
          resultados1 = resultados(tipoNotificador \<mapsto> err)
      in case lg of
           None \<Rightarrow> (resultados1, w1)
         | Some l \<Rightarrow>
            (case err of
               Some e \<Rightarrow>
                 (resultados1,
                  LogError l (tipoNotificador @ '' fall'' @ o_acento @ '': '' @ fmt_v err) w1)
             | None \<Rightarrow>
                 (resultados1, LogInfo l (tipoNotificador @ '' '' @ e_acento @ ''xito'') w1)))"

fun EnviarATodos_bucle ::
  "Logger option \<Rightarrow> string \<Rightarrow> string \<Rightarrow> Notificador list \<Rightarrow> resultados_t \<times> Mundo
     \<Rightarrow> resultados_t \<times> Mundo" where
  "EnviarATodos_bucle lg d m [] rw = rw"
| "EnviarATodos_bucle lg d m (n # ns) rw =
     EnviarATodos_bucle lg d m ns (EnviarATodos_paso lg d m n rw)"

text \<open>Lines 397 to 399: the announcement, when a logger is set.\<close>

definition EnviarATodos_inicio :: "ServicioNotificaciones \<Rightarrow> Mundo \<Rightarrow> Mundo" where
  "EnviarATodos_inicio sn w =
     (case logger sn of
        Some l \<Rightarrow> LogInfo l (''Enviando a '' @ fmt_d (int (length (notificadores sn)))
                              @ '' notificadores'') w
      | None \<Rightarrow> w)"

definition EnviarATodos ::
  "ServicioNotificaciones \<Rightarrow> string \<Rightarrow> string \<Rightarrow> Mundo \<Rightarrow> resultados_t \<times> Mundo" where
  "EnviarATodos sn destinatario mensaje w =
     EnviarATodos_bucle (logger sn) destinatario mensaje (notificadores sn)
       (Map.empty, EnviarATodos_inicio sn w)"

text \<open>The body of the loop of \<^verbatim>\<open>EnviarConValidacion\<close> (lines 422 to 442), then the loop.\<close>

definition EnviarConValidacion_paso ::
  "string \<Rightarrow> string \<Rightarrow> Notificador \<Rightarrow> resultados_t \<times> Mundo \<Rightarrow> resultados_t \<times> Mundo" where
  "EnviarConValidacion_paso destinatario mensaje notificador rw =
     (let (resultados, w) = rw;
          tipoNotificador = nombre_tipo notificador;
          enviar = (let (err, w1) = EnviarNotificacion notificador destinatario mensaje w
                    in (resultados(tipoNotificador \<mapsto> err), w1))
      in case como_ValidadorMensaje notificador of
           Some validador \<Rightarrow>
             (case ValidarMensaje validador mensaje of
                Some err \<Rightarrow>
                  (resultados(tipoNotificador \<mapsto>
                     Some (''validaci'' @ o_acento @ ''n fall'' @ o_acento @ '': '' @ err)), w)
              | None \<Rightarrow>
                 (case ValidarDestinatario validador destinatario of
                    Some err \<Rightarrow>
                      (resultados(tipoNotificador \<mapsto>
                         Some (''destinatario inv'' @ a_acento @ ''lido: '' @ err)), w)
                  | None \<Rightarrow> enviar))
         | None \<Rightarrow> enviar)"

fun EnviarConValidacion_bucle ::
  "string \<Rightarrow> string \<Rightarrow> Notificador list \<Rightarrow> resultados_t \<times> Mundo \<Rightarrow> resultados_t \<times> Mundo" where
  "EnviarConValidacion_bucle d m [] rw = rw"
| "EnviarConValidacion_bucle d m (n # ns) rw =
     EnviarConValidacion_bucle d m ns (EnviarConValidacion_paso d m n rw)"

definition EnviarConValidacion ::
  "ServicioNotificaciones \<Rightarrow> string \<Rightarrow> string \<Rightarrow> Mundo \<Rightarrow> resultados_t \<times> Mundo" where
  "EnviarConValidacion sn destinatario mensaje w =
     EnviarConValidacion_bucle destinatario mensaje (notificadores sn) (Map.empty, w)"

subsection \<open>Notions used by the properties\<close>

text \<open>The record store behind a \<^verbatim>\<open>Rastreador\<close>.\<close>

fun registros_de :: "Rastreador \<Rightarrow> Mundo \<Rightarrow> registros_t" where
  "registros_de (REmail a) w = registros (emails w a)"
| "registros_de (RSMS a) w = registrosSMS (smss w a)"

text \<open>The number of stored records in a given state.\<close>

definition cuenta :: "EstadoNotificacion \<Rightarrow> registros_t \<Rightarrow> int" where
  "cuenta e regs = int (length (filter (\<lambda>(k, r). Estado r = e) regs))"

text \<open>
  The statistics as the specification words them: the store scanned and its records
  counted by state, under the category names of each backend.
\<close>

fun conteo_por_estado :: "Rastreador \<Rightarrow> registros_t \<Rightarrow> (string \<rightharpoonup> int)" where
  "conteo_por_estado (REmail a) regs =
     [''total'' \<mapsto> int (length regs), ''enviadas'' \<mapsto> cuenta Enviada regs,
      ''fallidas'' \<mapsto> cuenta Fallida regs, ''pendientes'' \<mapsto> cuenta Pendiente regs]"
| "conteo_por_estado (RSMS a) regs =
     [''total'' \<mapsto> int (length regs), ''enviados'' \<mapsto> cuenta Enviada regs,
      ''fallidos'' \<mapsto> cuenta Fallida regs, ''pendientes'' \<mapsto> cuenta Pendiente regs]"

text \<open>
  A backend passes the validation of \<^verbatim>\<open>EnviarConValidacion\<close> when it has no
  \<^verbatim>\<open>ValidadorMensaje\<close> or when both of its checks return \<^verbatim>\<open>nil\<close>.
\<close>

definition pasa_validacion :: "string \<Rightarrow> string \<Rightarrow> Notificador \<Rightarrow> bool" where
  "pasa_validacion d m n =
     (case como_ValidadorMensaje n of
        None \<Rightarrow> True
      | Some v \<Rightarrow> ValidarMensaje v m = None \<and> ValidarDestinatario v d = None)"

text \<open>The operations of the core that receive the world, and the world each leaves.\<close>

datatype Operacion =
    OpEnviarNotificacion Notificador string string
  | OpEnviarATodos ServicioNotificaciones string string
  | OpEnviarConValidacion ServicioNotificaciones string string
  | OpObtenerEstado Rastreador string
  | OpObtenerEstadisticas Rastreador
  | OpAgregarNotificador ServicioNotificaciones Notificador

fun ejecutar :: "Operacion \<Rightarrow> Mundo \<Rightarrow> Mundo" where
  "ejecutar (OpEnviarNotificacion n d m) w = snd (EnviarNotificacion n d m w)"
| "ejecutar (OpEnviarATodos sn d m) w = snd (EnviarATodos sn d m w)"
| "ejecutar (OpEnviarConValidacion sn d m) w = snd (EnviarConValidacion sn d m w)"
| "ejecutar (OpObtenerEstado rt i) w = snd (ObtenerEstado rt i w)"
| "ejecutar (OpObtenerEstadisticas rt) w = snd (ObtenerEstadisticas rt w)"
| "ejecutar (OpAgregarNotificador sn n) w = snd (AgregarNotificador sn n w)"

text \<open>
  A world for the examples: an email backend at address 0 and another at 1, an SMS
  backend at 0 and a Slack backend at 0, all as their constructors leave them, and a
  clock that advances a millisecond and a nanosecond per reading from a given first
  reading.
\<close>

definition mundo_inicial :: "int \<Rightarrow> Mundo" where
  "mundo_inicial t0 =
     \<lparr>emails = (\<lambda>a. \<lparr>servidor = ''smtp.gmail.com'', puerto = 587, usuario = ''app@empresa.com'',
                      password = ''password'',
                      configuracion = \<lparr>MaxIntentos = 3, TimeoutSegundos = 30, ReintentoAuto = True\<rparr>,
                      registros = []\<rparr>),
      smss = (\<lambda>a. \<lparr>apiKey = ''api-key-123'', proveedor = ''Twilio'', registrosSMS = []\<rparr>),
      slacks = (\<lambda>a. \<lparr>webhook = ''https://hooks.slack.com/... '', canal = ''#general''\<rparr>),
      reloj = (\<lambda>k. t0 + 1000001 * int k),
      lecturas = 0,
      salida = [],
      llamadas = []\<rparr>"

text \<open>
  How the entry of one identifier may differ between a store and a later one: an
  identifier absent afterwards was absent before, and a record present afterwards is
  the record that was there before or is in state \<open>Enviada\<close> or \<open>Fallida\<close>.
\<close>

definition evoluciona_en :: "string \<Rightarrow> registros_t \<Rightarrow> registros_t \<Rightarrow> bool" where
  "evoluciona_en j regs regs' =
     (case map_of regs' j of
        None \<Rightarrow> map_of regs j = None
      | Some r' \<Rightarrow> map_of regs j = Some r' \<or> Estado r' = Enviada \<or> Estado r' = Fallida)"

text \<open>
  The number of characters of a string in UTF-8, as \<^verbatim>\<open>utf8.RuneCountInString\<close> counts
  them on well-formed text: every byte except the continuation bytes, which are those
  from 128 to 191.
\<close>

definition caracteres :: "string \<Rightarrow> nat" where
  "caracteres s = length (filter (\<lambda>c. \<not> (128 \<le> (of_char c :: nat) \<and> (of_char c :: nat) < 192)) s)"

text \<open>
  A send meets a fresh identifier when it stops at its own validation, or when the
  identifier it is about to generate from the next clock reading is not yet a key of
  the store. The Slack backend generates none.
\<close>

fun identificador_fresco :: "Notificador \<Rightarrow> string \<Rightarrow> string \<Rightarrow> Mundo \<Rightarrow> bool" where
  "identificador_fresco (PEmail a) d m w =
     (if ValidarDestinatario_email d = None \<and> ValidarMensaje_email m = None
      then map_of (registros (emails w a)) (''email_'' @ fmt_d (reloj w (lecturas w))) = None
      else True)"
| "identificador_fresco (PSMS a) d m w =
     (if ValidarDestinatario_sms d = None \<and> ValidarMensaje_sms m = None
      then map_of (registrosSMS (smss w a)) (''sms_'' @ fmt_d (reloj w (lecturas w))) = None
      else True)"
| "identificador_fresco (PSlack a) d m w = True"

text \<open>The same along a broadcast: each send meets a fresh identifier in the world it runs in.\<close>

fun frescos_ATodos ::
  "Logger option \<Rightarrow> string \<Rightarrow> string \<Rightarrow> Notificador list \<Rightarrow> Mundo \<Rightarrow> bool" where
  "frescos_ATodos lg d m [] w = True"
| "frescos_ATodos lg d m (n # ns) w =
     (identificador_fresco n d m w \<and>
      frescos_ATodos lg d m ns (snd (EnviarATodos_paso lg d m n (Map.empty, w))))"

fun frescos_ConValidacion :: "string \<Rightarrow> string \<Rightarrow> Notificador list \<Rightarrow> Mundo \<Rightarrow> bool" where
  "frescos_ConValidacion d m [] w = True"
| "frescos_ConValidacion d m (n # ns) w =
     (if pasa_validacion d m n
      then identificador_fresco n d m w \<and>
           frescos_ConValidacion d m ns (snd (EnviarNotificacion n d m w))
      else frescos_ConValidacion d m ns w)"

fun identificadores_frescos :: "Operacion \<Rightarrow> Mundo \<Rightarrow> bool" where
  "identificadores_frescos (OpEnviarNotificacion n d m) w = identificador_fresco n d m w"
| "identificadores_frescos (OpEnviarATodos sn d m) w =
     frescos_ATodos (logger sn) d m (notificadores sn) (EnviarATodos_inicio sn w)"
| "identificadores_frescos (OpEnviarConValidacion sn d m) w =
     frescos_ConValidacion d m (notificadores sn) w"
| "identificadores_frescos (OpObtenerEstado rt i) w = True"
| "identificadores_frescos (OpObtenerEstadisticas rt) w = True"
| "identificadores_frescos (OpAgregarNotificador sn n) w = True"

text \<open>
  The example world with a wall clock that is set back between two sends: the first
  five readings span a send of the email backend (100 ms of sleep before the fourth),
  the next five start again from the first reading.
\<close>

definition mundo_reloj_repetido :: Mundo where
  "mundo_reloj_repetido =
     (mundo_inicial 0)\<lparr>reloj := (\<lambda>k.
        [1700000000000000002, 1700000000000001002, 1700000000000002002,
         1700000000100003003, 1700000000100004004,
         1700000000000000002, 1700000000000001002, 1700000000000002002,
         1700000000100003010, 1700000000100004004] ! (k mod 10))\<rparr>"

section \<open>Properties\<close>

subsection \<open>Validation rules\<close>

text \<open>
  The rules of the email validator, with the length of a message measured as Go's
  \<^verbatim>\<open>len\<close> measures it, in bytes.
\<close>

lemma validacion_email_en_bytes:
  "(ValidarMensaje_email m = None \<longleftrightarrow> m \<noteq> [] \<and> length m \<le> 1000) \<and>
   (ValidarMensaje_email m \<noteq> None \<longleftrightarrow> (\<exists>e. ValidarMensaje_email m = Some e)) \<and>
   (ValidarDestinatario_email d = None \<longleftrightarrow> CHR ''@'' \<in> set d \<and> CHR ''.'' \<in> set d) \<and>
   (ValidarDestinatario_email d \<noteq> None \<longleftrightarrow> (\<exists>e. ValidarDestinatario_email d = Some e))"
  by (simp add: ValidarMensaje_email_def ValidarDestinatario_email_def Contains_def)

lemma caracteres_replicate_e_acento:
  "caracteres (concat (replicate n e_acento)) = n"
  by (induction n) (simp_all add: caracteres_def)

lemma length_replicate_e_acento:
  "length (concat (replicate n e_acento)) = 2 * n"
  by (induction n) simp_all

text \<open>
  C5. The destination rule is as stated: both \<^verbatim>\<open>@\<close> and \<^verbatim>\<open>.\<close> must occur. The
  message rule is not: the validator, whose own error text gives the limit as 1000
  \<^verbatim>\<open>caracteres\<close>, compares the number of bytes with 1000. A message of 501 letters
  \<^verbatim>\<open>e\<close> with acute accent is non-empty and has 501 characters, yet it has 1002 bytes
  and is refused as too long.
\<close>

theorem C5_mensaje_fuera_de_ascii:
  "concat (replicate 501 e_acento) \<noteq> [] \<and>
   caracteres (concat (replicate 501 e_acento)) = 501 \<and>
   length (concat (replicate 501 e_acento)) = 1002 \<and>
   ValidarMensaje_email (concat (replicate 501 e_acento))
     = Some (''mensaje muy largo (m'' @ a_acento @ ''ximo 1000 caracteres)'') \<and>
   (ValidarDestinatario_email d = None \<longleftrightarrow> CHR ''@'' \<in> set d \<and> CHR ''.'' \<in> set d)"
proof -
  have "length (concat (replicate 501 e_acento)) = 1002"
    by (simp add: length_replicate_e_acento)
  then have "concat (replicate 501 e_acento) \<noteq> []"
    by (cases "concat (replicate 501 e_acento)") simp_all
  then show ?thesis
    by (simp add: caracteres_replicate_e_acento length_replicate_e_acento
        ValidarMensaje_email_def ValidarDestinatario_email_def Contains_def)
qed

subsection \<open>Statistics\<close>

lemma incr_same: "incr k st k = Some ((case st k of None \<Rightarrow> 0 | Some c \<Rightarrow> c) + 1)"
  by (simp add: incr_def)

lemma incr_other: "k' \<noteq> k \<Longrightarrow> incr k st k' = st k'"
  by (simp add: incr_def)

text \<open>A loop that counts under one key: the key ends at its start plus the matches.\<close>

lemma fold_contar:
  assumes paso: "\<And>r st c. st key = Some c \<Longrightarrow> f r st key = Some (c + (if P r then 1 else 0))"
  shows "st key = Some c \<Longrightarrow>
         fold (\<lambda>(k, r). f r) regs st key
           = Some (c + int (length (filter (\<lambda>(k, r). P r) regs)))"
proof (induction regs arbitrary: st c)
  case Nil
  then show ?case by simp
next
  case (Cons p regs)
  obtain k r where p: "p = (k, r)" by (cases p)
  have "f r st key = Some (c + (if P r then 1 else 0))"
    using Cons.prems by (rule paso)
  then have "fold (\<lambda>(k, r). f r) regs (f r st) key
           = Some (c + (if P r then 1 else 0) + int (length (filter (\<lambda>(k, r). P r) regs)))"
    by (rule Cons.IH)
  then show ?case by (simp add: p)
qed

lemma contar_email_total:
  "st ''total'' = Some c \<Longrightarrow> contar_email r st ''total'' = Some (c + (if True then 1 else 0))"
  by (cases "Estado r") (simp_all add: contar_email_def Let_def incr_same incr_other)

lemma contar_email_enviadas:
  "st ''enviadas'' = Some c \<Longrightarrow>
   contar_email r st ''enviadas'' = Some (c + (if Estado r = Enviada then 1 else 0))"
  by (cases "Estado r") (simp_all add: contar_email_def Let_def incr_same incr_other)

lemma contar_email_fallidas:
  "st ''fallidas'' = Some c \<Longrightarrow>
   contar_email r st ''fallidas'' = Some (c + (if Estado r = Fallida then 1 else 0))"
  by (cases "Estado r") (simp_all add: contar_email_def Let_def incr_same incr_other)

lemma contar_email_pendientes:
  "st ''pendientes'' = Some c \<Longrightarrow>
   contar_email r st ''pendientes'' = Some (c + (if Estado r = Pendiente then 1 else 0))"
  by (cases "Estado r") (simp_all add: contar_email_def Let_def incr_same incr_other)

lemma contar_email_otras:
  "k \<notin> {''total'', ''enviadas'', ''fallidas'', ''pendientes''} \<Longrightarrow> contar_email r st k = st k"
  by (cases "Estado r") (simp_all add: contar_email_def Let_def incr_other)

lemma fold_contar_email_otras:
  "k \<notin> {''total'', ''enviadas'', ''fallidas'', ''pendientes''} \<Longrightarrow>
   fold (\<lambda>(k, r). contar_email r) regs st k = st k"
  by (induction regs arbitrary: st) (simp_all add: contar_email_otras split_def)

lemma ObtenerEstadisticas_email_valor:
  "fst (ObtenerEstadisticas_email a w) = conteo_por_estado (REmail a) (registros (emails w a))"
proof (rule ext)
  fix k
  let ?st = "[''total'' \<mapsto> 0, ''enviadas'' \<mapsto> 0, ''fallidas'' \<mapsto> 0, ''pendientes'' \<mapsto> (0::int)]"
  let ?regs = "registros (emails w a)"
  have t: "fold (\<lambda>(k, r). contar_email r) ?regs ?st ''total'' = Some (int (length ?regs))"
    using fold_contar [where f = contar_email and key = "''total''" and P = "\<lambda>r. True"
        and st = ?st and c = 0 and regs = ?regs, OF contar_email_total]
    by simp
  have e: "fold (\<lambda>(k, r). contar_email r) ?regs ?st ''enviadas'' = Some (cuenta Enviada ?regs)"
    using fold_contar [where f = contar_email and key = "''enviadas''"
        and P = "\<lambda>r. Estado r = Enviada" and st = ?st and c = 0 and regs = ?regs,
        OF contar_email_enviadas]
    by (simp add: cuenta_def)
  have f: "fold (\<lambda>(k, r). contar_email r) ?regs ?st ''fallidas'' = Some (cuenta Fallida ?regs)"
    using fold_contar [where f = contar_email and key = "''fallidas''"
        and P = "\<lambda>r. Estado r = Fallida" and st = ?st and c = 0 and regs = ?regs,
        OF contar_email_fallidas]
    by (simp add: cuenta_def)
  have p: "fold (\<lambda>(k, r). contar_email r) ?regs ?st ''pendientes'' = Some (cuenta Pendiente ?regs)"
    using fold_contar [where f = contar_email and key = "''pendientes''"
        and P = "\<lambda>r. Estado r = Pendiente" and st = ?st and c = 0 and regs = ?regs,
        OF contar_email_pendientes]
    by (simp add: cuenta_def)
  have o: "k \<notin> {''total'', ''enviadas'', ''fallidas'', ''pendientes''} \<Longrightarrow>
           fold (\<lambda>(k, r). contar_email r) ?regs ?st k = None"
    by (simp add: fold_contar_email_otras)
  show "fst (ObtenerEstadisticas_email a w) k = conteo_por_estado (REmail a) ?regs k"
    using t e f p o by (auto simp: ObtenerEstadisticas_email_def)
qed

lemma contar_sms_total:
  "st ''total'' = Some c \<Longrightarrow> contar_sms r st ''total'' = Some (c + (if True then 1 else 0))"
  by (cases "Estado r") (simp_all add: contar_sms_def Let_def incr_same incr_other)

lemma contar_sms_enviados:
  "st ''enviados'' = Some c \<Longrightarrow>
   contar_sms r st ''enviados'' = Some (c + (if Estado r = Enviada then 1 else 0))"
  by (cases "Estado r") (simp_all add: contar_sms_def Let_def incr_same incr_other)

lemma contar_sms_fallidos:
  "st ''fallidos'' = Some c \<Longrightarrow>
   contar_sms r st ''fallidos'' = Some (c + (if Estado r = Fallida then 1 else 0))"
  by (cases "Estado r") (simp_all add: contar_sms_def Let_def incr_same incr_other)

lemma contar_sms_pendientes:
  "st ''pendientes'' = Some c \<Longrightarrow>
   contar_sms r st ''pendientes'' = Some (c + (if Estado r = Pendiente then 1 else 0))"
  by (cases "Estado r") (simp_all add: contar_sms_def Let_def incr_same incr_other)

lemma contar_sms_otras:
  "k \<notin> {''total'', ''enviados'', ''fallidos'', ''pendientes''} \<Longrightarrow> contar_sms r st k = st k"
  by (cases "Estado r") (simp_all add: contar_sms_def Let_def incr_other)

lemma fold_contar_sms_otras:
  "k \<notin> {''total'', ''enviados'', ''fallidos'', ''pendientes''} \<Longrightarrow>
   fold (\<lambda>(k, r). contar_sms r) regs st k = st k"
  by (induction regs arbitrary: st) (simp_all add: contar_sms_otras split_def)

lemma ObtenerEstadisticas_sms_valor:
  "fst (ObtenerEstadisticas_sms a w) = conteo_por_estado (RSMS a) (registrosSMS (smss w a))"
proof (rule ext)
  fix k
  let ?st = "[''total'' \<mapsto> 0, ''enviados'' \<mapsto> 0, ''fallidos'' \<mapsto> 0, ''pendientes'' \<mapsto> (0::int)]"
  let ?regs = "registrosSMS (smss w a)"
  have t: "fold (\<lambda>(k, r). contar_sms r) ?regs ?st ''total'' = Some (int (length ?regs))"
    using fold_contar [where f = contar_sms and key = "''total''" and P = "\<lambda>r. True"
        and st = ?st and c = 0 and regs = ?regs, OF contar_sms_total]
    by simp
  have e: "fold (\<lambda>(k, r). contar_sms r) ?regs ?st ''enviados'' = Some (cuenta Enviada ?regs)"
    using fold_contar [where f = contar_sms and key = "''enviados''"
        and P = "\<lambda>r. Estado r = Enviada" and st = ?st and c = 0 and regs = ?regs,
        OF contar_sms_enviados]
    by (simp add: cuenta_def)
  have f: "fold (\<lambda>(k, r). contar_sms r) ?regs ?st ''fallidos'' = Some (cuenta Fallida ?regs)"
    using fold_contar [where f = contar_sms and key = "''fallidos''"
        and P = "\<lambda>r. Estado r = Fallida" and st = ?st and c = 0 and regs = ?regs,
        OF contar_sms_fallidos]
    by (simp add: cuenta_def)
  have p: "fold (\<lambda>(k, r). contar_sms r) ?regs ?st ''pendientes'' = Some (cuenta Pendiente ?regs)"
    using fold_contar [where f = contar_sms and key = "''pendientes''"
        and P = "\<lambda>r. Estado r = Pendiente" and st = ?st and c = 0 and regs = ?regs,
        OF contar_sms_pendientes]
    by (simp add: cuenta_def)
  have o: "k \<notin> {''total'', ''enviados'', ''fallidos'', ''pendientes''} \<Longrightarrow>
           fold (\<lambda>(k, r). contar_sms r) ?regs ?st k = None"
    by (simp add: fold_contar_sms_otras)
  show "fst (ObtenerEstadisticas_sms a w) k = conteo_por_estado (RSMS a) ?regs k"
    using t e f p o by (auto simp: ObtenerEstadisticas_sms_def)
qed

lemma ObtenerEstadisticas_valor:
  "fst (ObtenerEstadisticas rt w) = conteo_por_estado rt (registros_de rt w)"
  by (cases rt) (simp_all add: ObtenerEstadisticas_email_valor ObtenerEstadisticas_sms_valor)

lemma ObtenerEstadisticas_mundo: "snd (ObtenerEstadisticas rt w) = w"
  by (cases rt) (simp_all add: ObtenerEstadisticas_email_def ObtenerEstadisticas_sms_def)

text \<open>
  C8. Two calls of \<^verbatim>\<open>ObtenerEstadisticas\<close> in a row, nothing in between, return the
  same mapping: the call leaves the world as it found it, and its result is the store
  scanned and counted by state.
\<close>

theorem C8_estadisticas_idempotente:
  "snd (ObtenerEstadisticas rt w) = w \<and>
   fst (ObtenerEstadisticas rt (snd (ObtenerEstadisticas rt w))) = fst (ObtenerEstadisticas rt w) \<and>
   fst (ObtenerEstadisticas rt w) = conteo_por_estado rt (registros_de rt w)"
  by (simp add: ObtenerEstadisticas_mundo ObtenerEstadisticas_valor)

subsection \<open>The effect of one send\<close>

lemma map_entry_update: "AList.map_entry k f (AList.update k v xs) = AList.update k (f v) xs"
  by (induction xs) auto

lemmas email_defs = EnviarNotificacion_email_def registrar_email_def entregar_email_def
  LogInfo_email_def LogError_email_def Log_email_def ahora_def imprimir_def
  anotar_llamada_def poner_registros_email_def

lemmas sms_defs = EnviarNotificacion_sms_def registrar_sms_def entregar_sms_def
  LogInfo_sms_def LogError_sms_def Log_sms_def ahora_def imprimir_def
  anotar_llamada_def poner_registros_sms_def

lemma email_invalido:
  "ValidarDestinatario_email d \<noteq> None \<or> ValidarMensaje_email m \<noteq> None \<Longrightarrow>
   EnviarNotificacion_email a d m w =
     ((case ValidarDestinatario_email d of Some e \<Rightarrow> Some e | None \<Rightarrow> ValidarMensaje_email m),
      anotar_llamada (PEmail a) d m w)"
  by (auto simp: EnviarNotificacion_email_def Let_def split: option.splits)

lemma email_valido:
  assumes "ValidarDestinatario_email d = None" "ValidarMensaje_email m = None"
  shows "EnviarNotificacion_email a d m w =
    (let ident = ''email_'' @ fmt_d (reloj w (lecturas w));
         falla = (reloj w (lecturas w + 3) mod 10 = 0);
         registro = \<lparr>ID = ident, Tipo = Email, Destinatario = d, Mensaje = m,
                     Estado = (if falla then Fallida else Enviada),
                     Timestamp = reloj w (lecturas w + 1), Intentos = 1,
                     Error = (if falla then ''Servidor SMTP no disponible'' else [])\<rparr>
     in ((if falla then Some ''fallo al enviar email'' else None),
         w\<lparr>emails := (emails w)(a := (emails w a)
              \<lparr>registros := AList.update ident registro (registros (emails w a))\<rparr>),
           lecturas := lecturas w + 5,
           salida := salida w @
             [LineaLog (reloj w (lecturas w + 2)) ''EMAIL'' ''INFO'' (''Enviando email a '' @ d),
              (if falla
               then LineaLog (reloj w (lecturas w + 4)) ''EMAIL'' ''ERROR'' ''Servidor SMTP no disponible''
               else LineaLog (reloj w (lecturas w + 4)) ''EMAIL'' ''INFO''
                      (''Email enviado exitosamente: '' @ ident))],
           llamadas := llamadas w @ [(PEmail a, d, m)]\<rparr>))"
  using assms by (simp add: email_defs Let_def split_def map_entry_update eval_nat_numeral)

lemma sms_invalido:
  "ValidarDestinatario_sms d \<noteq> None \<or> ValidarMensaje_sms m \<noteq> None \<Longrightarrow>
   EnviarNotificacion_sms a d m w =
     ((case ValidarDestinatario_sms d of Some e \<Rightarrow> Some e | None \<Rightarrow> ValidarMensaje_sms m),
      anotar_llamada (PSMS a) d m w)"
  by (auto simp: EnviarNotificacion_sms_def Let_def split: option.splits)

lemma sms_valido:
  assumes "ValidarDestinatario_sms d = None" "ValidarMensaje_sms m = None"
  shows "EnviarNotificacion_sms a d m w =
    (let ident = ''sms_'' @ fmt_d (reloj w (lecturas w));
         falla = (reloj w (lecturas w + 3) mod 20 = 0);
         texto = ''N'' @ u_acento @ ''mero no v'' @ a_acento @ ''lido'';
         registro = \<lparr>ID = ident, Tipo = SMS, Destinatario = d, Mensaje = m,
                     Estado = (if falla then Fallida else Enviada),
                     Timestamp = reloj w (lecturas w + 1), Intentos = 1,
                     Error = (if falla then texto else [])\<rparr>
     in ((if falla then Some ''fallo al enviar SMS'' else None),
         w\<lparr>smss := (smss w)(a := (smss w a)
              \<lparr>registrosSMS := AList.update ident registro (registrosSMS (smss w a))\<rparr>),
           lecturas := lecturas w + 5,
           salida := salida w @
             [LineaLog (reloj w (lecturas w + 2)) ''SMS'' ''INFO''
                (''Enviando SMS a '' @ d @ '' via '' @ proveedor (smss w a)),
              (if falla
               then LineaLog (reloj w (lecturas w + 4)) ''SMS'' ''ERROR'' texto
               else LineaLog (reloj w (lecturas w + 4)) ''SMS'' ''INFO''
                      (''SMS enviado exitosamente: '' @ ident))],
           llamadas := llamadas w @ [(PSMS a, d, m)]\<rparr>))"
  using assms by (simp add: sms_defs Let_def split_def map_entry_update eval_nat_numeral)


lemma emails_EnviarNotificacion_otros:
  "(\<forall>a. n \<noteq> PEmail a) \<or> ValidarDestinatario_email d \<noteq> None \<or> ValidarMensaje_email m \<noteq> None
   \<Longrightarrow> emails (snd (EnviarNotificacion n d m w)) = emails w"
proof (cases n)
  case (PEmail a)
  assume "(\<forall>a. n \<noteq> PEmail a) \<or> ValidarDestinatario_email d \<noteq> None \<or> ValidarMensaje_email m \<noteq> None"
  with PEmail have "ValidarDestinatario_email d \<noteq> None \<or> ValidarMensaje_email m \<noteq> None" by simp
  then show ?thesis by (simp add: PEmail EnviarNotificacion.simps email_invalido anotar_llamada_def)
next
  case (PSMS a)
  show ?thesis
  proof (cases "ValidarDestinatario_sms d = None \<and> ValidarMensaje_sms m = None")
    case True
    then show ?thesis by (simp add: PSMS EnviarNotificacion.simps sms_valido Let_def)
  next
    case False
    then show ?thesis by (simp add: PSMS EnviarNotificacion.simps sms_invalido anotar_llamada_def)
  qed
next
  case (PSlack a)
  then show ?thesis
    by (simp add: EnviarNotificacion.simps EnviarNotificacion_slack_def anotar_llamada_def
        imprimir_def Let_def)
qed

lemma smss_EnviarNotificacion_otros:
  "(\<forall>a. n \<noteq> PSMS a) \<or> ValidarDestinatario_sms d \<noteq> None \<or> ValidarMensaje_sms m \<noteq> None
   \<Longrightarrow> smss (snd (EnviarNotificacion n d m w)) = smss w"
proof (cases n)
  case (PSMS a)
  assume "(\<forall>a. n \<noteq> PSMS a) \<or> ValidarDestinatario_sms d \<noteq> None \<or> ValidarMensaje_sms m \<noteq> None"
  with PSMS have "ValidarDestinatario_sms d \<noteq> None \<or> ValidarMensaje_sms m \<noteq> None" by simp
  then show ?thesis by (simp add: PSMS EnviarNotificacion.simps sms_invalido anotar_llamada_def)
next
  case (PEmail a)
  show ?thesis
  proof (cases "ValidarDestinatario_email d = None \<and> ValidarMensaje_email m = None")
    case True
    then show ?thesis by (simp add: PEmail EnviarNotificacion.simps email_valido Let_def)
  next
    case False
    then show ?thesis by (simp add: PEmail EnviarNotificacion.simps email_invalido anotar_llamada_def)
  qed
next
  case (PSlack a)
  then show ?thesis
    by (simp add: EnviarNotificacion.simps EnviarNotificacion_slack_def anotar_llamada_def
        imprimir_def Let_def)
qed

lemma LogInfo_marco [simp]:
  "emails (LogInfo l t w) = emails w" "smss (LogInfo l t w) = smss w"
  "slacks (LogInfo l t w) = slacks w" "llamadas (LogInfo l t w) = llamadas w"
  "reloj (LogInfo l t w) = reloj w"
  by (cases l; simp add: LogInfo_email_def Log_email_def LogInfo_sms_def Log_sms_def
        ahora_def imprimir_def)+

lemma LogError_marco [simp]:
  "emails (LogError l t w) = emails w" "smss (LogError l t w) = smss w"
  "slacks (LogError l t w) = slacks w" "llamadas (LogError l t w) = llamadas w"
  "reloj (LogError l t w) = reloj w"
  by (cases l; simp add: LogError_email_def Log_email_def LogError_sms_def Log_sms_def
        ahora_def imprimir_def)+

subsection \<open>The two broadcasts\<close>


lemma fold_paso_ajeno:
  assumes forma: "\<And>n r w. paso n (r, w) = (r(key n \<mapsto> out n w), g n w)"
  shows "\<forall>n \<in> set ns. key n \<noteq> T \<Longrightarrow> fst (fold paso ns (r, w)) T = r T"
  by (induction ns arbitrary: r w) (auto simp: forma)

lemma fold_paso_mundo:
  assumes forma: "\<And>n r w. paso n (r, w) = (r(key n \<mapsto> out n w), g n w)"
  shows "snd (fold paso ns (r, w)) = fold g ns w"
  by (induction ns arbitrary: r w) (auto simp: forma)

lemma fold_paso_ultimo:
  assumes forma: "\<And>n r w. paso n (r, w) = (r(key n \<mapsto> out n w), g n w)"
    and ys: "\<forall>y \<in> set ys. key y \<noteq> key n"
  shows "fst (fold paso (xs @ n # ys) (r, w)) (key n) = Some (out n (fold g xs w))"
proof -
  obtain r1 where r1: "fold paso xs (r, w) = (r1, fold g xs w)"
    using fold_paso_mundo [of paso key out g xs r w, OF forma] by (cases "fold paso xs (r, w)") simp
  have "fst (fold paso ys (r1(key n \<mapsto> out n (fold g xs w)), g n (fold g xs w))) (key n)
        = (r1(key n \<mapsto> out n (fold g xs w))) (key n)"
    using fold_paso_ajeno [of paso key out g ys "key n", OF forma ys] .
  then show ?thesis by (simp add: r1 forma)
qed

lemma fold_paso_constante:
  assumes forma: "\<And>n r w. paso n (r, w) = (r(key n \<mapsto> out n w), g n w)"
    and n: "n \<in> set ns"
    and igual: "\<And>n' w'. n' \<in> set ns \<Longrightarrow> key n' = key n \<Longrightarrow> out n' w' = e"
  shows "fst (fold paso ns (r, w)) (key n) = Some e"
proof -
  have "\<exists>x \<in> set ns. key x = key n" using n by blast
  then obtain xs x ys where ns: "ns = xs @ x # ys" and x: "key x = key n"
    and ys: "\<forall>y \<in> set ys. key y \<noteq> key n"
    using split_list_last_prop [of ns "\<lambda>x. key x = key n"] by blast
  have "fst (fold paso (xs @ x # ys) (r, w)) (key x) = Some (out x (fold g xs w))"
    using fold_paso_ultimo [of paso key out g ys x xs r w, OF forma] ys x by simp
  moreover have "out x (fold g xs w) = e"
    using igual [of x] ns x by simp
  ultimately show ?thesis by (simp add: ns x)
qed

lemma fold_conserva:
  assumes "\<And>n w. n \<in> set ns \<Longrightarrow> f (g n w) = f w"
  shows "f (fold g ns w) = f w"
  using assms by (induction ns arbitrary: w) auto


lemma EnviarATodos_bucle_fold:
  "EnviarATodos_bucle lg d m ns rw = fold (EnviarATodos_paso lg d m) ns rw"
  by (induction ns arbitrary: rw) auto

lemma EnviarConValidacion_bucle_fold:
  "EnviarConValidacion_bucle d m ns rw = fold (EnviarConValidacion_paso d m) ns rw"
  by (induction ns arbitrary: rw) auto

text \<open>The world a step of \<^verbatim>\<open>EnviarATodos\<close> leaves: the send, then the service's log line.\<close>

lemma EnviarATodos_paso_forma:
  "EnviarATodos_paso lg d m n (r, w) =
     (r(nombre_tipo n \<mapsto> fst (EnviarNotificacion n d m w)),
      snd (EnviarATodos_paso lg d m n (Map.empty, w)))"
  by (simp add: EnviarATodos_paso_def split_def Let_def split: option.splits)

lemma EnviarATodos_paso_marco:
  "emails (snd (EnviarATodos_paso lg d m n (r, w))) = emails (snd (EnviarNotificacion n d m w))"
  "smss (snd (EnviarATodos_paso lg d m n (r, w))) = smss (snd (EnviarNotificacion n d m w))"
  "llamadas (snd (EnviarATodos_paso lg d m n (r, w))) = llamadas (snd (EnviarNotificacion n d m w))"
  by (simp_all add: EnviarATodos_paso_def split_def Let_def split: option.splits)

lemma EnviarATodos_inicio_marco [simp]:
  "emails (EnviarATodos_inicio sn w) = emails w"
  "smss (EnviarATodos_inicio sn w) = smss w"
  "llamadas (EnviarATodos_inicio sn w) = llamadas w"
  by (simp_all add: EnviarATodos_inicio_def split: option.splits)

lemma EnviarConValidacion_paso_forma:
  "EnviarConValidacion_paso d m n (r, w) =
     (r(nombre_tipo n \<mapsto>
          (case como_ValidadorMensaje n of
             None \<Rightarrow> fst (EnviarNotificacion n d m w)
           | Some v \<Rightarrow>
              (case ValidarMensaje v m of
                 Some e \<Rightarrow> Some (''validaci'' @ o_acento @ ''n fall'' @ o_acento @ '': '' @ e)
               | None \<Rightarrow>
                  (case ValidarDestinatario v d of
                     Some e \<Rightarrow> Some (''destinatario inv'' @ a_acento @ ''lido: '' @ e)
                   | None \<Rightarrow> fst (EnviarNotificacion n d m w))))),
      (if pasa_validacion d m n then snd (EnviarNotificacion n d m w) else w))"
  by (simp add: EnviarConValidacion_paso_def pasa_validacion_def split_def Let_def
      split: option.splits)


lemma EnviarATodos_mundo:
  "snd (EnviarATodos sn d m w) =
     fold (\<lambda>n w. snd (EnviarATodos_paso (logger sn) d m n (Map.empty, w)))
       (notificadores sn) (EnviarATodos_inicio sn w)"
  using fold_paso_mundo [of "EnviarATodos_paso (logger sn) d m" nombre_tipo
      "\<lambda>n w. fst (EnviarNotificacion n d m w)"
      "\<lambda>n w. snd (EnviarATodos_paso (logger sn) d m n (Map.empty, w))"
      "notificadores sn" Map.empty "EnviarATodos_inicio sn w", OF EnviarATodos_paso_forma]
  by (simp add: EnviarATodos_def EnviarATodos_bucle_fold)






lemma EnviarConValidacion_mundo:
  "snd (EnviarConValidacion sn d m w) =
     fold (\<lambda>n w. if pasa_validacion d m n then snd (EnviarNotificacion n d m w) else w)
       (notificadores sn) w"
  using fold_paso_mundo [of "EnviarConValidacion_paso d m" nombre_tipo _ _
      "notificadores sn" Map.empty w, OF EnviarConValidacion_paso_forma]
  by (simp add: EnviarConValidacion_def EnviarConValidacion_bucle_fold)



text \<open>Backends of one type name share their validation rules.\<close>

lemma mismo_nombre_validador:
  assumes "nombre_tipo n' = nombre_tipo n" "como_ValidadorMensaje n = Some v"
  shows "\<exists>v'. como_ValidadorMensaje n' = Some v' \<and>
              ValidarMensaje v' m = ValidarMensaje v m \<and>
              ValidarDestinatario v' d = ValidarDestinatario v d"
  using assms by (cases n; cases n'; auto)

lemma EnviarConValidacion_rechazo_mensaje:
  assumes "n \<in> set (notificadores sn)" "como_ValidadorMensaje n = Some v"
    "ValidarMensaje v m = Some e"
  shows "fst (EnviarConValidacion sn d m w) (nombre_tipo n)
         = Some (Some (''validaci'' @ o_acento @ ''n fall'' @ o_acento @ '': '' @ e))"
proof -
  have "fst (fold (EnviarConValidacion_paso d m) (notificadores sn) (Map.empty, w)) (nombre_tipo n)
        = Some (Some (''validaci'' @ o_acento @ ''n fall'' @ o_acento @ '': '' @ e))"
  proof (rule fold_paso_constante [OF EnviarConValidacion_paso_forma assms(1)])
    fix n' w'
    assume "nombre_tipo n' = nombre_tipo n"
    then obtain v' where v': "como_ValidadorMensaje n' = Some v'"
      "ValidarMensaje v' m = ValidarMensaje v m"
      "ValidarDestinatario v' d = ValidarDestinatario v d"
      using mismo_nombre_validador [OF _ assms(2)] by blast
    show "(case como_ValidadorMensaje n' of
             None \<Rightarrow> fst (EnviarNotificacion n' d m w')
           | Some v \<Rightarrow>
              (case ValidarMensaje v m of
                 Some e \<Rightarrow> Some (''validaci'' @ o_acento @ ''n fall'' @ o_acento @ '': '' @ e)
               | None \<Rightarrow>
                  (case ValidarDestinatario v d of
                     Some e \<Rightarrow> Some (''destinatario inv'' @ a_acento @ ''lido: '' @ e)
                   | None \<Rightarrow> fst (EnviarNotificacion n' d m w'))))
          = Some (''validaci'' @ o_acento @ ''n fall'' @ o_acento @ '': '' @ e)"
      using assms(3) v' by simp
  qed
  then show ?thesis by (simp add: EnviarConValidacion_def EnviarConValidacion_bucle_fold)
qed




lemma EnviarATodos_emails_invalido:
  assumes "ValidarDestinatario_email d \<noteq> None \<or> ValidarMensaje_email m \<noteq> None"
  shows "emails (snd (EnviarATodos sn d m w)) = emails w"
proof -
  let ?g = "\<lambda>n w. snd (EnviarATodos_paso (logger sn) d m n (Map.empty, w))"
  have "emails (fold ?g (notificadores sn) (EnviarATodos_inicio sn w))
        = emails (EnviarATodos_inicio sn w)"
    by (rule fold_conserva)
      (simp only: EnviarATodos_paso_marco emails_EnviarNotificacion_otros [OF disjI2 [OF assms]])
  then show ?thesis by (simp add: EnviarATodos_mundo)
qed

lemma EnviarATodos_smss_invalido:
  assumes "ValidarDestinatario_sms d \<noteq> None \<or> ValidarMensaje_sms m \<noteq> None"
  shows "smss (snd (EnviarATodos sn d m w)) = smss w"
proof -
  let ?g = "\<lambda>n w. snd (EnviarATodos_paso (logger sn) d m n (Map.empty, w))"
  have "smss (fold ?g (notificadores sn) (EnviarATodos_inicio sn w))
        = smss (EnviarATodos_inicio sn w)"
    by (rule fold_conserva)
      (simp only: EnviarATodos_paso_marco smss_EnviarNotificacion_otros [OF disjI2 [OF assms]])
  then show ?thesis by (simp add: EnviarATodos_mundo)
qed

lemma EnviarATodos_constante:
  assumes "n \<in> set (notificadores sn)"
    and "\<And>n' w'. nombre_tipo n' = nombre_tipo n \<Longrightarrow> fst (EnviarNotificacion n' d m w') = e"
  shows "fst (EnviarATodos sn d m w) (nombre_tipo n) = Some e"
proof -
  have "fst (fold (EnviarATodos_paso (logger sn) d m) (notificadores sn)
          (Map.empty, EnviarATodos_inicio sn w)) (nombre_tipo n) = Some e"
    by (rule fold_paso_constante [OF EnviarATodos_paso_forma assms(1)]) (rule assms(2))
  then show ?thesis by (simp add: EnviarATodos_def EnviarATodos_bucle_fold)
qed

lemma nombre_email: "nombre_tipo n' = nombre_tipo (PEmail a) \<Longrightarrow> \<exists>a'. n' = PEmail a'"
  by (cases n') simp_all

lemma nombre_sms: "nombre_tipo n' = nombre_tipo (PSMS a) \<Longrightarrow> \<exists>a'. n' = PSMS a'"
  by (cases n') simp_all

text \<open>
  C9. \<^verbatim>\<open>EnviarNotificacion\<close> of the email and SMS backends checks the destination and
  then the message before it creates a record: on a rejected input it returns the
  error of the first failing check and leaves every store of its type as it was. So
  \<^verbatim>\<open>EnviarATodos\<close>, which validates nothing itself, records that validation error
  under the backend's type name, and no store of that type gains a record.
\<close>

theorem C9_validacion_en_el_envio:
  "((case ValidarDestinatario_email d of Some e \<Rightarrow> Some e | None \<Rightarrow> ValidarMensaje_email m)
      = Some ee \<longrightarrow>
      fst (EnviarNotificacion (PEmail a) d m w) = Some ee \<and>
      emails (snd (EnviarNotificacion (PEmail a) d m w)) = emails w \<and>
      emails (snd (EnviarATodos sn d m w)) = emails w \<and>
      (PEmail a \<in> set (notificadores sn) \<longrightarrow>
         fst (EnviarATodos sn d m w) (nombre_tipo (PEmail a)) = Some (Some ee))) \<and>
   ((case ValidarDestinatario_sms d of Some e \<Rightarrow> Some e | None \<Rightarrow> ValidarMensaje_sms m)
      = Some es \<longrightarrow>
      fst (EnviarNotificacion (PSMS b) d m w) = Some es \<and>
      smss (snd (EnviarNotificacion (PSMS b) d m w)) = smss w \<and>
      smss (snd (EnviarATodos sn d m w)) = smss w \<and>
      (PSMS b \<in> set (notificadores sn) \<longrightarrow>
         fst (EnviarATodos sn d m w) (nombre_tipo (PSMS b)) = Some (Some es)))"
proof (intro conjI impI)
  assume h: "(case ValidarDestinatario_email d of Some e \<Rightarrow> Some e
              | None \<Rightarrow> ValidarMensaje_email m) = Some ee"
  then have inv: "ValidarDestinatario_email d \<noteq> None \<or> ValidarMensaje_email m \<noteq> None"
    by (auto split: option.splits)
  have uno: "fst (EnviarNotificacion (PEmail a') d m w') = Some ee" for a' w'
    using h inv by (simp add: EnviarNotificacion.simps email_invalido)
  show "fst (EnviarNotificacion (PEmail a) d m w) = Some ee" by (rule uno)
  show "emails (snd (EnviarNotificacion (PEmail a) d m w)) = emails w"
    by (rule emails_EnviarNotificacion_otros [OF disjI2 [OF inv]])
  show "emails (snd (EnviarATodos sn d m w)) = emails w"
    using inv by (rule EnviarATodos_emails_invalido)
  assume "PEmail a \<in> set (notificadores sn)"
  then show "fst (EnviarATodos sn d m w) (nombre_tipo (PEmail a)) = Some (Some ee)"
  proof (rule EnviarATodos_constante)
    fix n' w'
    assume "nombre_tipo n' = nombre_tipo (PEmail a)"
    then obtain a' where "n' = PEmail a'" using nombre_email by blast
    then show "fst (EnviarNotificacion n' d m w') = Some ee" by (simp only: uno)
  qed
next
  assume h: "(case ValidarDestinatario_sms d of Some e \<Rightarrow> Some e
              | None \<Rightarrow> ValidarMensaje_sms m) = Some es"
  then have inv: "ValidarDestinatario_sms d \<noteq> None \<or> ValidarMensaje_sms m \<noteq> None"
    by (auto split: option.splits)
  have uno: "fst (EnviarNotificacion (PSMS a') d m w') = Some es" for a' w'
    using h inv by (simp add: EnviarNotificacion.simps sms_invalido)
  show "fst (EnviarNotificacion (PSMS b) d m w) = Some es" by (rule uno)
  show "smss (snd (EnviarNotificacion (PSMS b) d m w)) = smss w"
    by (rule smss_EnviarNotificacion_otros [OF disjI2 [OF inv]])
  show "smss (snd (EnviarATodos sn d m w)) = smss w"
    using inv by (rule EnviarATodos_smss_invalido)
  assume "PSMS b \<in> set (notificadores sn)"
  then show "fst (EnviarATodos sn d m w) (nombre_tipo (PSMS b)) = Some (Some es)"
  proof (rule EnviarATodos_constante)
    fix n' w'
    assume "nombre_tipo n' = nombre_tipo (PSMS b)"
    then obtain a' where "n' = PSMS a'" using nombre_sms by blast
    then show "fst (EnviarNotificacion n' d m w') = Some es" by (simp only: uno)
  qed
qed

lemma EnviarConValidacion_emails_rechazo:
  assumes "ValidarMensaje_email m \<noteq> None \<or> ValidarDestinatario_email d \<noteq> None"
  shows "emails (snd (EnviarConValidacion sn d m w)) = emails w"
proof -
  let ?g = "\<lambda>n w. if pasa_validacion d m n then snd (EnviarNotificacion n d m w) else w"
  have "emails (?g n w') = emails w'" for n w'
  proof (cases n)
    case (PEmail a)
    then have "\<not> pasa_validacion d m n" using assms by (auto simp: pasa_validacion_def)
    then show ?thesis by simp
  next
    case (PSMS a)
    then show ?thesis by (simp add: emails_EnviarNotificacion_otros)
  next
    case (PSlack a)
    then show ?thesis by (simp add: emails_EnviarNotificacion_otros)
  qed
  then have "emails (fold ?g (notificadores sn) w) = emails w"
    by (intro fold_conserva)
  then show ?thesis by (simp add: EnviarConValidacion_mundo)
qed

lemma EnviarConValidacion_smss_rechazo:
  assumes "ValidarMensaje_sms m \<noteq> None \<or> ValidarDestinatario_sms d \<noteq> None"
  shows "smss (snd (EnviarConValidacion sn d m w)) = smss w"
proof -
  let ?g = "\<lambda>n w. if pasa_validacion d m n then snd (EnviarNotificacion n d m w) else w"
  have "smss (?g n w') = smss w'" for n w'
  proof (cases n)
    case (PSMS a)
    then have "\<not> pasa_validacion d m n" using assms by (auto simp: pasa_validacion_def)
    then show ?thesis by simp
  next
    case (PEmail a)
    then show ?thesis by (simp add: smss_EnviarNotificacion_otros)
  next
    case (PSlack a)
    then show ?thesis by (simp add: smss_EnviarNotificacion_otros)
  qed
  then have "smss (fold ?g (notificadores sn) w) = smss w"
    by (intro fold_conserva)
  then show ?thesis by (simp add: EnviarConValidacion_mundo)
qed

text \<open>
  C4. A message longer than 1000 makes \<^verbatim>\<open>EnviarConValidacion\<close> record a validation
  failure for a registered email backend and leaves every email store unchanged; a
  message longer than 160 does the same for a registered SMS backend and the SMS
  stores.
\<close>

theorem C4_mensaje_demasiado_largo:
  "(length m > 1000 \<longrightarrow>
      emails (snd (EnviarConValidacion sn d m w)) = emails w \<and>
      (PEmail a \<in> set (notificadores sn) \<longrightarrow>
         \<not> pasa_validacion d m (PEmail a) \<and>
         fst (EnviarConValidacion sn d m w) (nombre_tipo (PEmail a))
           = Some (Some (''validaci'' @ o_acento @ ''n fall'' @ o_acento
                         @ '': mensaje muy largo (m'' @ a_acento @ ''ximo 1000 caracteres)'')))) \<and>
   (length m > 160 \<longrightarrow>
      smss (snd (EnviarConValidacion sn d m w)) = smss w \<and>
      (PSMS b \<in> set (notificadores sn) \<longrightarrow>
         \<not> pasa_validacion d m (PSMS b) \<and>
         fst (EnviarConValidacion sn d m w) (nombre_tipo (PSMS b))
           = Some (Some (''validaci'' @ o_acento @ ''n fall'' @ o_acento
                         @ '': mensaje SMS muy largo (m'' @ a_acento @ ''ximo 160 caracteres)''))))"
proof (intro conjI impI)
  assume l: "length m > 1000"
  then have v: "ValidarMensaje_email m
                = Some (''mensaje muy largo (m'' @ a_acento @ ''ximo 1000 caracteres)'')"
    by (auto simp: ValidarMensaje_email_def)
  then show "emails (snd (EnviarConValidacion sn d m w)) = emails w"
    by (simp add: EnviarConValidacion_emails_rechazo)
  show "\<not> pasa_validacion d m (PEmail a)" using v by (simp add: pasa_validacion_def)
  assume "PEmail a \<in> set (notificadores sn)"
  then show "fst (EnviarConValidacion sn d m w) (nombre_tipo (PEmail a))
           = Some (Some (''validaci'' @ o_acento @ ''n fall'' @ o_acento
                         @ '': mensaje muy largo (m'' @ a_acento @ ''ximo 1000 caracteres)''))"
    using EnviarConValidacion_rechazo_mensaje [of "PEmail a" sn "VEmail a" m _ d w] v by simp
next
  assume l: "length m > 160"
  then have v: "ValidarMensaje_sms m
                = Some (''mensaje SMS muy largo (m'' @ a_acento @ ''ximo 160 caracteres)'')"
    by (auto simp: ValidarMensaje_sms_def)
  then show "smss (snd (EnviarConValidacion sn d m w)) = smss w"
    by (simp add: EnviarConValidacion_smss_rechazo)
  show "\<not> pasa_validacion d m (PSMS b)" using v by (simp add: pasa_validacion_def)
  assume "PSMS b \<in> set (notificadores sn)"
  then show "fst (EnviarConValidacion sn d m w) (nombre_tipo (PSMS b))
           = Some (Some (''validaci'' @ o_acento @ ''n fall'' @ o_acento
                         @ '': mensaje SMS muy largo (m'' @ a_acento @ ''ximo 160 caracteres)''))"
    using EnviarConValidacion_rechazo_mensaje [of "PSMS b" sn "VSMS b" m _ d w] v by simp
qed

subsection \<open>The life of a record\<close>

lemma evoluciona_refl: "evoluciona_en j regs regs"
  by (simp add: evoluciona_en_def split: option.splits)

lemma evoluciona_trans:
  "evoluciona_en j r1 r2 \<Longrightarrow> evoluciona_en j r2 r3 \<Longrightarrow> evoluciona_en j r1 r3"
  by (auto simp: evoluciona_en_def split: option.splits)

lemma evoluciona_update:
  "Estado r = Enviada \<or> Estado r = Fallida \<Longrightarrow> evoluciona_en j regs (AList.update k r regs)"
  by (auto simp: evoluciona_en_def update_conv' split: option.splits)

lemma registros_de_cong:
  "emails w' = emails w \<Longrightarrow> smss w' = smss w \<Longrightarrow> registros_de rt w' = registros_de rt w"
  by (cases rt) simp_all

lemma evoluciona_envio:
  "evoluciona_en j (registros_de rt w) (registros_de rt (snd (EnviarNotificacion n d m w)))"
proof (cases n)
  case (PEmail a)
  show ?thesis
  proof (cases "ValidarDestinatario_email d = None \<and> ValidarMensaje_email m = None")
    case True
    then show ?thesis
      by (cases rt)
        (auto simp: PEmail EnviarNotificacion.simps email_valido Let_def
          evoluciona_refl evoluciona_update)
  next
    case False
    then show ?thesis
      by (cases rt)
        (auto simp: PEmail EnviarNotificacion.simps email_invalido anotar_llamada_def
          evoluciona_refl)
  qed
next
  case (PSMS a)
  show ?thesis
  proof (cases "ValidarDestinatario_sms d = None \<and> ValidarMensaje_sms m = None")
    case True
    then show ?thesis
      by (cases rt)
        (auto simp: PSMS EnviarNotificacion.simps sms_valido Let_def
          evoluciona_refl evoluciona_update)
  next
    case False
    then show ?thesis
      by (cases rt)
        (auto simp: PSMS EnviarNotificacion.simps sms_invalido anotar_llamada_def
          evoluciona_refl)
  qed
next
  case (PSlack a)
  then show ?thesis
    by (cases rt)
      (auto simp: EnviarNotificacion.simps EnviarNotificacion_slack_def anotar_llamada_def
        imprimir_def Let_def evoluciona_refl)
qed

lemma fold_evoluciona:
  assumes "\<And>n w. evoluciona_en j (registros_de rt w) (registros_de rt (g n w))"
  shows "evoluciona_en j (registros_de rt w) (registros_de rt (fold g ns w))"
proof (induction ns arbitrary: w)
  case Nil
  show ?case by (simp add: evoluciona_refl)
next
  case (Cons n ns)
  have "evoluciona_en j (registros_de rt w) (registros_de rt (g n w))" by (rule assms)
  moreover have "evoluciona_en j (registros_de rt (g n w)) (registros_de rt (fold g ns (g n w)))"
    by (rule Cons.IH)
  ultimately show ?case by (simp add: evoluciona_trans [of j _ "registros_de rt (g n w)"])
qed

lemma evoluciona_EnviarATodos:
  "evoluciona_en j (registros_de rt w) (registros_de rt (snd (EnviarATodos sn d m w)))"
proof -
  let ?g = "\<lambda>n w. snd (EnviarATodos_paso (logger sn) d m n (Map.empty, w))"
  have paso: "evoluciona_en j (registros_de rt w') (registros_de rt (?g n w'))" for n w'
  proof -
    have "registros_de rt (?g n w') = registros_de rt (snd (EnviarNotificacion n d m w'))"
      by (rule registros_de_cong) (simp_all only: EnviarATodos_paso_marco)
    then show ?thesis by (simp add: evoluciona_envio)
  qed
  have "evoluciona_en j (registros_de rt (EnviarATodos_inicio sn w))
          (registros_de rt (fold ?g (notificadores sn) (EnviarATodos_inicio sn w)))"
    by (rule fold_evoluciona) (rule paso)
  moreover have "registros_de rt (EnviarATodos_inicio sn w) = registros_de rt w"
    by (rule registros_de_cong) simp_all
  ultimately show ?thesis by (simp add: EnviarATodos_mundo)
qed

lemma evoluciona_EnviarConValidacion:
  "evoluciona_en j (registros_de rt w) (registros_de rt (snd (EnviarConValidacion sn d m w)))"
proof -
  let ?g = "\<lambda>n w. if pasa_validacion d m n then snd (EnviarNotificacion n d m w) else w"
  have "evoluciona_en j (registros_de rt w) (registros_de rt (fold ?g (notificadores sn) w))"
    by (rule fold_evoluciona) (simp add: evoluciona_envio evoluciona_refl)
  then show ?thesis by (simp add: EnviarConValidacion_mundo)
qed

lemma evoluciona_ejecutar:
  "evoluciona_en j (registros_de rt w) (registros_de rt (ejecutar op w))"
proof (cases op)
  case (OpEnviarNotificacion n d m)
  then show ?thesis by (simp add: evoluciona_envio)
next
  case (OpEnviarATodos sn d m)
  then show ?thesis by (simp add: evoluciona_EnviarATodos)
next
  case (OpEnviarConValidacion sn d m)
  then show ?thesis by (simp add: evoluciona_EnviarConValidacion)
next
  case (OpObtenerEstado rt' i)
  then show ?thesis
    by (cases rt')
      (simp_all add: ObtenerEstado_email_def ObtenerEstado_sms_def evoluciona_refl
        split: option.splits)
next
  case (OpObtenerEstadisticas rt')
  then show ?thesis by (simp add: ObtenerEstadisticas_mundo evoluciona_refl)
next
  case (OpAgregarNotificador sn n)
  have "registros_de rt (snd (AgregarNotificador sn n w)) = registros_de rt w"
    by (rule registros_de_cong)
      (simp_all add: AgregarNotificador_def Let_def split: option.splits)
  then show ?thesis by (simp add: OpAgregarNotificador evoluciona_refl)
qed

lemma registrar_email_pendiente:
  "\<exists>r. map_of (registros (emails (snd (registrar_email a d m w)) a))
          (fst (registrar_email a d m w)) = Some r \<and> Estado r = Pendiente"
  by (simp add: registrar_email_def ahora_def poner_registros_email_def Let_def split_def
      update_conv')

lemma registrar_sms_pendiente:
  "\<exists>r. map_of (registrosSMS (smss (snd (registrar_sms a d m w)) a))
          (fst (registrar_sms a d m w)) = Some r \<and> Estado r = Pendiente"
  by (simp add: registrar_sms_def ahora_def poner_registros_sms_def Let_def split_def
      update_conv')

lemma entregar_email_registros:
  "map_of (registros (emails (snd (entregar_email a i d w)) a)) =
     (map_of (registros (emails w a)))(i :=
        (case map_of (registros (emails w a)) i of
           None \<Rightarrow> None
         | Some r \<Rightarrow>
            Some (if reloj w (Suc (lecturas w)) mod 10 = 0
                  then r\<lparr>Estado := Fallida, Error := ''Servidor SMTP no disponible''\<rparr>
                  else r\<lparr>Estado := Enviada\<rparr>)))"
  by (cases "reloj w (Suc (lecturas w)) mod 10 = 0")
    (simp_all add: entregar_email_def LogInfo_email_def LogError_email_def Log_email_def
      ahora_def imprimir_def poner_registros_email_def Let_def split_def map_of_map_entry
      cong: option.case_cong)

lemma entregar_sms_registros:
  "map_of (registrosSMS (smss (snd (entregar_sms a i d w)) a)) =
     (map_of (registrosSMS (smss w a)))(i :=
        (case map_of (registrosSMS (smss w a)) i of
           None \<Rightarrow> None
         | Some r \<Rightarrow>
            Some (if reloj w (Suc (lecturas w)) mod 20 = 0
                  then r\<lparr>Estado := Fallida,
                         Error := ''N'' @ u_acento @ ''mero no v'' @ a_acento @ ''lido''\<rparr>
                  else r\<lparr>Estado := Enviada\<rparr>)))"
  by (cases "reloj w (Suc (lecturas w)) mod 20 = 0")
    (simp_all add: entregar_sms_def LogInfo_sms_def LogError_sms_def Log_sms_def
      ahora_def imprimir_def poner_registros_sms_def Let_def split_def map_of_map_entry
      cong: option.case_cong)


lemma registrar_email_otros:
  "j \<noteq> fst (registrar_email a d m w) \<Longrightarrow>
   map_of (registros (emails (snd (registrar_email a d m w)) a)) j
     = map_of (registros (emails w a)) j"
  by (simp add: registrar_email_def ahora_def poner_registros_email_def Let_def split_def
      update_conv')

lemma registrar_sms_otros:
  "j \<noteq> fst (registrar_sms a d m w) \<Longrightarrow>
   map_of (registrosSMS (smss (snd (registrar_sms a d m w)) a)) j
     = map_of (registrosSMS (smss w a)) j"
  by (simp add: registrar_sms_def ahora_def poner_registros_sms_def Let_def split_def
      update_conv')

text \<open>The record a valid send stores, and where.\<close>

lemma email_valido_registros:
  assumes "ValidarDestinatario_email d = None" "ValidarMensaje_email m = None"
  shows "registros (emails (snd (EnviarNotificacion (PEmail a) d m w)) a) =
     AList.update (''email_'' @ fmt_d (reloj w (lecturas w)))
       \<lparr>ID = ''email_'' @ fmt_d (reloj w (lecturas w)), Tipo = Email, Destinatario = d,
        Mensaje = m,
        Estado = (if reloj w (lecturas w + 3) mod 10 = 0 then Fallida else Enviada),
        Timestamp = reloj w (lecturas w + 1), Intentos = 1,
        Error = (if reloj w (lecturas w + 3) mod 10 = 0
                 then ''Servidor SMTP no disponible'' else [])\<rparr>
       (registros (emails w a))"
  using assms by (simp add: EnviarNotificacion.simps email_valido Let_def)

lemma email_valido_error:
  assumes "ValidarDestinatario_email d = None" "ValidarMensaje_email m = None"
  shows "fst (EnviarNotificacion (PEmail a) d m w) =
     (if reloj w (lecturas w + 3) mod 10 = 0 then Some ''fallo al enviar email'' else None)"
  using assms by (simp add: EnviarNotificacion.simps email_valido Let_def)

lemma sms_valido_registros:
  assumes "ValidarDestinatario_sms d = None" "ValidarMensaje_sms m = None"
  shows "registrosSMS (smss (snd (EnviarNotificacion (PSMS a) d m w)) a) =
     AList.update (''sms_'' @ fmt_d (reloj w (lecturas w)))
       \<lparr>ID = ''sms_'' @ fmt_d (reloj w (lecturas w)), Tipo = SMS, Destinatario = d,
        Mensaje = m,
        Estado = (if reloj w (lecturas w + 3) mod 20 = 0 then Fallida else Enviada),
        Timestamp = reloj w (lecturas w + 1), Intentos = 1,
        Error = (if reloj w (lecturas w + 3) mod 20 = 0
                 then ''N'' @ u_acento @ ''mero no v'' @ a_acento @ ''lido'' else [])\<rparr>
       (registrosSMS (smss w a))"
  using assms by (simp add: EnviarNotificacion.simps sms_valido Let_def)

lemma sms_valido_error:
  assumes "ValidarDestinatario_sms d = None" "ValidarMensaje_sms m = None"
  shows "fst (EnviarNotificacion (PSMS a) d m w) =
     (if reloj w (lecturas w + 3) mod 20 = 0 then Some ''fallo al enviar SMS'' else None)"
  using assms by (simp add: EnviarNotificacion.simps sms_valido Let_def)

lemma length_update_nuevo:
  "map_of al k = None \<Longrightarrow> length (AList.update k v al) = Suc (length al)"
  by (induction al) (auto split: if_splits)

lemma length_update_presente:
  "map_of al k \<noteq> None \<Longrightarrow> length (AList.update k v al) = length al"
  by (induction al) (auto split: if_splits)

lemma email_valido_reloj:
  assumes "ValidarDestinatario_email d = None" "ValidarMensaje_email m = None"
  shows "reloj (snd (EnviarNotificacion (PEmail a) d m w)) = reloj w"
    "lecturas (snd (EnviarNotificacion (PEmail a) d m w)) = lecturas w + 5"
    "a' \<noteq> a \<Longrightarrow> emails (snd (EnviarNotificacion (PEmail a) d m w)) a' = emails w a'"
  using assms by (simp_all add: EnviarNotificacion.simps email_valido Let_def)

text \<open>
  C3 (amended statement). A send of the email or SMS backend whose destination and
  message pass the backend's own checks makes one delivery attempt: it announces the
  delivery, reads the clock once to decide the outcome and logs that outcome, five
  clock readings and two output lines in all. It stores one record under the
  identifier it generates, with \<open>Intentos = 1\<close> and state \<open>Enviada\<close> or \<open>Fallida\<close>, and
  returns an error exactly when that state is \<open>Fallida\<close>. The record is a new one when
  the identifier is not yet in the store; otherwise it takes the place of the record
  under that identifier and the store keeps its size. A send whose input fails those
  checks returns an error and changes nothing but the history of calls. The Slack
  backend keeps no store: its send prints one line and returns no error.
\<close>

theorem C3_envio_registra:
  "(ValidarDestinatario_email d = None \<and> ValidarMensaje_email m = None \<longrightarrow>
      (\<exists>r. EnviarNotificacion (PEmail a) d m w =
              ((if Estado r = Fallida then Some ''fallo al enviar email'' else None),
               w\<lparr>emails := (emails w)(a := (emails w a)
                    \<lparr>registros := AList.update (ID r) r (registros (emails w a))\<rparr>),
                 lecturas := lecturas w + 5,
                 salida := salida w @
                   [LineaLog (reloj w (lecturas w + 2)) ''EMAIL'' ''INFO''
                      (''Enviando email a '' @ d),
                    (if Estado r = Fallida
                     then LineaLog (reloj w (lecturas w + 4)) ''EMAIL'' ''ERROR''
                            ''Servidor SMTP no disponible''
                     else LineaLog (reloj w (lecturas w + 4)) ''EMAIL'' ''INFO''
                            (''Email enviado exitosamente: '' @ ID r))],
                 llamadas := llamadas w @ [(PEmail a, d, m)]\<rparr>) \<and>
            ID r = ''email_'' @ fmt_d (reloj w (lecturas w)) \<and> Tipo r = Email \<and>
            Destinatario r = d \<and> Mensaje r = m \<and>
            Timestamp r = reloj w (lecturas w + 1) \<and> Intentos r = 1 \<and>
            (Estado r = Enviada \<or> Estado r = Fallida) \<and>
            (Estado r = Fallida \<longleftrightarrow> reloj w (lecturas w + 3) mod 10 = 0)) \<and>
      (map_of (registros (emails w a)) (''email_'' @ fmt_d (reloj w (lecturas w))) = None \<longrightarrow>
         length (registros (emails (snd (EnviarNotificacion (PEmail a) d m w)) a))
           = Suc (length (registros (emails w a)))) \<and>
      (map_of (registros (emails w a)) (''email_'' @ fmt_d (reloj w (lecturas w))) \<noteq> None \<longrightarrow>
         length (registros (emails (snd (EnviarNotificacion (PEmail a) d m w)) a))
           = length (registros (emails w a)))) \<and>
   (ValidarDestinatario_email d \<noteq> None \<or> ValidarMensaje_email m \<noteq> None \<longrightarrow>
      fst (EnviarNotificacion (PEmail a) d m w) \<noteq> None \<and>
      snd (EnviarNotificacion (PEmail a) d m w)
        = w\<lparr>llamadas := llamadas w @ [(PEmail a, d, m)]\<rparr>) \<and>
   (ValidarDestinatario_sms d = None \<and> ValidarMensaje_sms m = None \<longrightarrow>
      (\<exists>r. EnviarNotificacion (PSMS a) d m w =
              ((if Estado r = Fallida then Some ''fallo al enviar SMS'' else None),
               w\<lparr>smss := (smss w)(a := (smss w a)
                    \<lparr>registrosSMS := AList.update (ID r) r (registrosSMS (smss w a))\<rparr>),
                 lecturas := lecturas w + 5,
                 salida := salida w @
                   [LineaLog (reloj w (lecturas w + 2)) ''SMS'' ''INFO''
                      (''Enviando SMS a '' @ d @ '' via '' @ proveedor (smss w a)),
                    (if Estado r = Fallida
                     then LineaLog (reloj w (lecturas w + 4)) ''SMS'' ''ERROR''
                            (''N'' @ u_acento @ ''mero no v'' @ a_acento @ ''lido'')
                     else LineaLog (reloj w (lecturas w + 4)) ''SMS'' ''INFO''
                            (''SMS enviado exitosamente: '' @ ID r))],
                 llamadas := llamadas w @ [(PSMS a, d, m)]\<rparr>) \<and>
            ID r = ''sms_'' @ fmt_d (reloj w (lecturas w)) \<and> Tipo r = SMS \<and>
            Destinatario r = d \<and> Mensaje r = m \<and>
            Timestamp r = reloj w (lecturas w + 1) \<and> Intentos r = 1 \<and>
            (Estado r = Enviada \<or> Estado r = Fallida) \<and>
            (Estado r = Fallida \<longleftrightarrow> reloj w (lecturas w + 3) mod 20 = 0)) \<and>
      (map_of (registrosSMS (smss w a)) (''sms_'' @ fmt_d (reloj w (lecturas w))) = None \<longrightarrow>
         length (registrosSMS (smss (snd (EnviarNotificacion (PSMS a) d m w)) a))
           = Suc (length (registrosSMS (smss w a)))) \<and>
      (map_of (registrosSMS (smss w a)) (''sms_'' @ fmt_d (reloj w (lecturas w))) \<noteq> None \<longrightarrow>
         length (registrosSMS (smss (snd (EnviarNotificacion (PSMS a) d m w)) a))
           = length (registrosSMS (smss w a)))) \<and>
   (ValidarDestinatario_sms d \<noteq> None \<or> ValidarMensaje_sms m \<noteq> None \<longrightarrow>
      fst (EnviarNotificacion (PSMS a) d m w) \<noteq> None \<and>
      snd (EnviarNotificacion (PSMS a) d m w)
        = w\<lparr>llamadas := llamadas w @ [(PSMS a, d, m)]\<rparr>) \<and>
   EnviarNotificacion (PSlack a) d m w =
     (None, w\<lparr>salida := salida w @ [LineaSlack (canal (slacks w a)) d m],
              llamadas := llamadas w @ [(PSlack a, d, m)]\<rparr>)"
proof (intro conjI impI)
  show "EnviarNotificacion (PSlack a) d m w =
     (None, w\<lparr>salida := salida w @ [LineaSlack (canal (slacks w a)) d m],
              llamadas := llamadas w @ [(PSlack a, d, m)]\<rparr>)"
    by (simp add: EnviarNotificacion.simps EnviarNotificacion_slack_def anotar_llamada_def
        imprimir_def Let_def)
next
  assume v: "ValidarDestinatario_email d = None \<and> ValidarMensaje_email m = None"
  then have v1: "ValidarDestinatario_email d = None" and v2: "ValidarMensaje_email m = None"
    by simp_all
  let ?falla = "reloj w (lecturas w + 3) mod 10 = 0"
  let ?r = "\<lparr>ID = ''email_'' @ fmt_d (reloj w (lecturas w)), Tipo = Email, Destinatario = d,
             Mensaje = m, Estado = (if ?falla then Fallida else Enviada),
             Timestamp = reloj w (lecturas w + 1), Intentos = 1,
             Error = (if ?falla then ''Servidor SMTP no disponible'' else [])\<rparr>"
  show "\<exists>r. EnviarNotificacion (PEmail a) d m w =
              ((if Estado r = Fallida then Some ''fallo al enviar email'' else None),
               w\<lparr>emails := (emails w)(a := (emails w a)
                    \<lparr>registros := AList.update (ID r) r (registros (emails w a))\<rparr>),
                 lecturas := lecturas w + 5,
                 salida := salida w @
                   [LineaLog (reloj w (lecturas w + 2)) ''EMAIL'' ''INFO''
                      (''Enviando email a '' @ d),
                    (if Estado r = Fallida
                     then LineaLog (reloj w (lecturas w + 4)) ''EMAIL'' ''ERROR''
                            ''Servidor SMTP no disponible''
                     else LineaLog (reloj w (lecturas w + 4)) ''EMAIL'' ''INFO''
                            (''Email enviado exitosamente: '' @ ID r))],
                 llamadas := llamadas w @ [(PEmail a, d, m)]\<rparr>) \<and>
            ID r = ''email_'' @ fmt_d (reloj w (lecturas w)) \<and> Tipo r = Email \<and>
            Destinatario r = d \<and> Mensaje r = m \<and>
            Timestamp r = reloj w (lecturas w + 1) \<and> Intentos r = 1 \<and>
            (Estado r = Enviada \<or> Estado r = Fallida) \<and>
            (Estado r = Fallida \<longleftrightarrow> reloj w (lecturas w + 3) mod 10 = 0)"
    by (rule exI [of _ ?r])
      (simp add: EnviarNotificacion.simps email_valido [OF v1 v2] Let_def)
  {
    assume "map_of (registros (emails w a)) (''email_'' @ fmt_d (reloj w (lecturas w))) = None"
    then show "length (registros (emails (snd (EnviarNotificacion (PEmail a) d m w)) a))
           = Suc (length (registros (emails w a)))"
      by (simp add: email_valido_registros [OF v1 v2] length_update_nuevo)
  }
  {
    assume "map_of (registros (emails w a)) (''email_'' @ fmt_d (reloj w (lecturas w))) \<noteq> None"
    then show "length (registros (emails (snd (EnviarNotificacion (PEmail a) d m w)) a))
           = length (registros (emails w a))"
      by (simp add: email_valido_registros [OF v1 v2] length_update_presente)
  }
next
  assume v: "ValidarDestinatario_sms d = None \<and> ValidarMensaje_sms m = None"
  then have v1: "ValidarDestinatario_sms d = None" and v2: "ValidarMensaje_sms m = None"
    by simp_all
  let ?falla = "reloj w (lecturas w + 3) mod 20 = 0"
  let ?r = "\<lparr>ID = ''sms_'' @ fmt_d (reloj w (lecturas w)), Tipo = SMS, Destinatario = d,
             Mensaje = m, Estado = (if ?falla then Fallida else Enviada),
             Timestamp = reloj w (lecturas w + 1), Intentos = 1,
             Error = (if ?falla then ''N'' @ u_acento @ ''mero no v'' @ a_acento @ ''lido''
                      else [])\<rparr>"
  show "\<exists>r. EnviarNotificacion (PSMS a) d m w =
              ((if Estado r = Fallida then Some ''fallo al enviar SMS'' else None),
               w\<lparr>smss := (smss w)(a := (smss w a)
                    \<lparr>registrosSMS := AList.update (ID r) r (registrosSMS (smss w a))\<rparr>),
                 lecturas := lecturas w + 5,
                 salida := salida w @
                   [LineaLog (reloj w (lecturas w + 2)) ''SMS'' ''INFO''
                      (''Enviando SMS a '' @ d @ '' via '' @ proveedor (smss w a)),
                    (if Estado r = Fallida
                     then LineaLog (reloj w (lecturas w + 4)) ''SMS'' ''ERROR''
                            (''N'' @ u_acento @ ''mero no v'' @ a_acento @ ''lido'')
                     else LineaLog (reloj w (lecturas w + 4)) ''SMS'' ''INFO''
                            (''SMS enviado exitosamente: '' @ ID r))],
                 llamadas := llamadas w @ [(PSMS a, d, m)]\<rparr>) \<and>
            ID r = ''sms_'' @ fmt_d (reloj w (lecturas w)) \<and> Tipo r = SMS \<and>
            Destinatario r = d \<and> Mensaje r = m \<and>
            Timestamp r = reloj w (lecturas w + 1) \<and> Intentos r = 1 \<and>
            (Estado r = Enviada \<or> Estado r = Fallida) \<and>
            (Estado r = Fallida \<longleftrightarrow> reloj w (lecturas w + 3) mod 20 = 0)"
    by (rule exI [of _ ?r])
      (simp add: EnviarNotificacion.simps sms_valido [OF v1 v2] Let_def)
  {
    assume "map_of (registrosSMS (smss w a)) (''sms_'' @ fmt_d (reloj w (lecturas w))) = None"
    then show "length (registrosSMS (smss (snd (EnviarNotificacion (PSMS a) d m w)) a))
           = Suc (length (registrosSMS (smss w a)))"
      by (simp add: sms_valido_registros [OF v1 v2] length_update_nuevo)
  }
  {
    assume "map_of (registrosSMS (smss w a)) (''sms_'' @ fmt_d (reloj w (lecturas w))) \<noteq> None"
    then show "length (registrosSMS (smss (snd (EnviarNotificacion (PSMS a) d m w)) a))
           = length (registrosSMS (smss w a))"
      by (simp add: sms_valido_registros [OF v1 v2] length_update_presente)
  }
next
  assume inv: "ValidarDestinatario_email d \<noteq> None \<or> ValidarMensaje_email m \<noteq> None"
  then show "fst (EnviarNotificacion (PEmail a) d m w) \<noteq> None"
    by (auto simp: EnviarNotificacion.simps email_invalido split: option.splits)
  show "snd (EnviarNotificacion (PEmail a) d m w)
        = w\<lparr>llamadas := llamadas w @ [(PEmail a, d, m)]\<rparr>"
    by (simp add: EnviarNotificacion.simps email_invalido [OF inv] anotar_llamada_def)
next
  assume inv: "ValidarDestinatario_sms d \<noteq> None \<or> ValidarMensaje_sms m \<noteq> None"
  then show "fst (EnviarNotificacion (PSMS a) d m w) \<noteq> None"
    by (auto simp: EnviarNotificacion.simps sms_invalido split: option.splits)
  show "snd (EnviarNotificacion (PSMS a) d m w)
        = w\<lparr>llamadas := llamadas w @ [(PSMS a, d, m)]\<rparr>"
    by (simp add: EnviarNotificacion.simps sms_invalido [OF inv] anotar_llamada_def)
qed

lemma fresco_envio:
  assumes "identificador_fresco n d m w" "map_of (registros_de rt w) j = Some r"
  shows "map_of (registros_de rt (snd (EnviarNotificacion n d m w))) j = Some r"
proof (cases n)
  case (PEmail a)
  show ?thesis
  proof (cases "ValidarDestinatario_email d = None \<and> ValidarMensaje_email m = None")
    case True
    then have v1: "ValidarDestinatario_email d = None" and v2: "ValidarMensaje_email m = None"
      by simp_all
    have libre: "map_of (registros (emails w a)) (''email_'' @ fmt_d (reloj w (lecturas w))) = None"
      using assms(1) True by (simp add: PEmail)
    show ?thesis
    proof (cases rt)
      case (REmail b)
      show ?thesis
      proof (cases "b = a")
        case True
        then have "j \<noteq> ''email_'' @ fmt_d (reloj w (lecturas w))"
          using libre assms(2) REmail by auto
        then show ?thesis
          using assms(2) True
          by (simp add: PEmail REmail email_valido_registros [OF v1 v2] update_conv')
      next
        case False
        then show ?thesis
          using assms(2) by (simp add: PEmail REmail email_valido_reloj(3) [OF v1 v2])
      qed
    next
      case (RSMS b)
      have "smss (snd (EnviarNotificacion (PEmail a) d m w)) = smss w"
        by (rule smss_EnviarNotificacion_otros) simp
      then show ?thesis using assms(2) by (simp add: PEmail RSMS)
    qed
  next
    case False
    then have inv: "ValidarDestinatario_email d \<noteq> None \<or> ValidarMensaje_email m \<noteq> None"
      by simp
    have "registros_de rt (snd (EnviarNotificacion (PEmail a) d m w)) = registros_de rt w"
      by (rule registros_de_cong)
        (simp_all add: EnviarNotificacion.simps email_invalido [OF inv] anotar_llamada_def)
    then show ?thesis using assms(2) by (simp add: PEmail)
  qed
next
  case (PSMS a)
  show ?thesis
  proof (cases "ValidarDestinatario_sms d = None \<and> ValidarMensaje_sms m = None")
    case True
    then have v1: "ValidarDestinatario_sms d = None" and v2: "ValidarMensaje_sms m = None"
      by simp_all
    have libre: "map_of (registrosSMS (smss w a)) (''sms_'' @ fmt_d (reloj w (lecturas w))) = None"
      using assms(1) True by (simp add: PSMS)
    show ?thesis
    proof (cases rt)
      case (RSMS b)
      show ?thesis
      proof (cases "b = a")
        case True
        then have "j \<noteq> ''sms_'' @ fmt_d (reloj w (lecturas w))"
          using libre assms(2) RSMS by auto
        then show ?thesis
          using assms(2) True
          by (simp add: PSMS RSMS sms_valido_registros [OF v1 v2] update_conv')
      next
        case False
        then show ?thesis
          using assms(2)
          by (simp add: PSMS RSMS EnviarNotificacion.simps sms_valido [OF v1 v2] Let_def)
      qed
    next
      case (REmail b)
      have "emails (snd (EnviarNotificacion (PSMS a) d m w)) = emails w"
        by (rule emails_EnviarNotificacion_otros) simp
      then show ?thesis using assms(2) by (simp add: PSMS REmail)
    qed
  next
    case False
    then have inv: "ValidarDestinatario_sms d \<noteq> None \<or> ValidarMensaje_sms m \<noteq> None"
      by simp
    have "registros_de rt (snd (EnviarNotificacion (PSMS a) d m w)) = registros_de rt w"
      by (rule registros_de_cong)
        (simp_all add: EnviarNotificacion.simps sms_invalido [OF inv] anotar_llamada_def)
    then show ?thesis using assms(2) by (simp add: PSMS)
  qed
next
  case (PSlack a)
  have "registros_de rt (snd (EnviarNotificacion (PSlack a) d m w)) = registros_de rt w"
    by (rule registros_de_cong)
      (simp_all add: EnviarNotificacion.simps EnviarNotificacion_slack_def anotar_llamada_def
        imprimir_def Let_def)
  then show ?thesis using assms(2) by (simp add: PSlack)
qed

lemma fresco_fold_ATodos:
  "frescos_ATodos lg d m ns w \<Longrightarrow> map_of (registros_de rt w) j = Some r \<Longrightarrow>
   map_of (registros_de rt
     (fold (\<lambda>n w. snd (EnviarATodos_paso lg d m n (Map.empty, w))) ns w)) j = Some r"
proof (induction ns arbitrary: w)
  case Nil
  then show ?case by simp
next
  case (Cons n ns)
  let ?w1 = "snd (EnviarATodos_paso lg d m n (Map.empty, w))"
  have "registros_de rt ?w1 = registros_de rt (snd (EnviarNotificacion n d m w))"
    by (rule registros_de_cong) (simp_all only: EnviarATodos_paso_marco)
  moreover have "map_of (registros_de rt (snd (EnviarNotificacion n d m w))) j = Some r"
    using Cons.prems by (intro fresco_envio) simp_all
  ultimately have "map_of (registros_de rt ?w1) j = Some r" by simp
  moreover have "frescos_ATodos lg d m ns ?w1" using Cons.prems(1) by simp
  ultimately show ?case using Cons.IH [of ?w1] by simp
qed

lemma fresco_fold_ConValidacion:
  "frescos_ConValidacion d m ns w \<Longrightarrow> map_of (registros_de rt w) j = Some r \<Longrightarrow>
   map_of (registros_de rt
     (fold (\<lambda>n w. if pasa_validacion d m n then snd (EnviarNotificacion n d m w) else w)
        ns w)) j = Some r"
proof (induction ns arbitrary: w)
  case Nil
  then show ?case by simp
next
  case (Cons n ns)
  show ?case
  proof (cases "pasa_validacion d m n")
    case True
    let ?w1 = "snd (EnviarNotificacion n d m w)"
    have "map_of (registros_de rt ?w1) j = Some r"
      using Cons.prems True by (intro fresco_envio) simp_all
    moreover have "frescos_ConValidacion d m ns ?w1" using Cons.prems(1) True by simp
    ultimately show ?thesis using Cons.IH [of ?w1] True by simp
  next
    case False
    then show ?thesis using Cons.prems Cons.IH [of w] by simp
  qed
qed

lemma fresco_ejecutar:
  assumes "identificadores_frescos op w" "map_of (registros_de rt w) j = Some r"
  shows "map_of (registros_de rt (ejecutar op w)) j = Some r"
proof (cases op)
  case (OpEnviarNotificacion n d m)
  then show ?thesis using assms by (simp add: fresco_envio)
next
  case (OpEnviarATodos sn d m)
  have "registros_de rt (EnviarATodos_inicio sn w) = registros_de rt w"
    by (rule registros_de_cong) simp_all
  then have "map_of (registros_de rt (EnviarATodos_inicio sn w)) j = Some r"
    using assms(2) by simp
  then show ?thesis
    using assms(1) OpEnviarATodos
    by (simp add: EnviarATodos_mundo fresco_fold_ATodos)
next
  case (OpEnviarConValidacion sn d m)
  then show ?thesis
    using assms by (simp add: EnviarConValidacion_mundo fresco_fold_ConValidacion)
next
  case (OpObtenerEstado rt' i)
  then show ?thesis
    using assms(2)
    by (cases rt')
      (simp_all add: ObtenerEstado_email_def ObtenerEstado_sms_def split: option.splits)
next
  case (OpObtenerEstadisticas rt')
  then show ?thesis using assms(2) by (simp add: ObtenerEstadisticas_mundo)
next
  case (OpAgregarNotificador sn n)
  have "registros_de rt (snd (AgregarNotificador sn n w)) = registros_de rt w"
    by (rule registros_de_cong)
      (simp_all add: AgregarNotificador_def Let_def split: option.splits)
  then show ?thesis using assms(2) by (simp add: OpAgregarNotificador)
qed

lemma registrar_entregar_email:
  "\<exists>r r'. map_of (registros (emails (snd (registrar_email a d m w)) a))
             (fst (registrar_email a d m w)) = Some r \<and> Estado r = Pendiente \<and>
           map_of (registros (emails (snd (entregar_email a (fst (registrar_email a d m w)) d
                                            (snd (registrar_email a d m w)))) a))
             (fst (registrar_email a d m w)) = Some r' \<and>
           (r' = r\<lparr>Estado := Enviada\<rparr> \<or>
            r' = r\<lparr>Estado := Fallida, Error := ''Servidor SMTP no disponible''\<rparr>)"
proof -
  obtain r where r: "map_of (registros (emails (snd (registrar_email a d m w)) a))
             (fst (registrar_email a d m w)) = Some r" "Estado r = Pendiente"
    using registrar_email_pendiente [of a d m w] by blast
  show ?thesis
    by (rule exI [of _ r]) (auto simp: r entregar_email_registros)
qed

lemma registrar_entregar_sms:
  "\<exists>r r'. map_of (registrosSMS (smss (snd (registrar_sms a d m w)) a))
             (fst (registrar_sms a d m w)) = Some r \<and> Estado r = Pendiente \<and>
           map_of (registrosSMS (smss (snd (entregar_sms a (fst (registrar_sms a d m w)) d
                                            (snd (registrar_sms a d m w)))) a))
             (fst (registrar_sms a d m w)) = Some r' \<and>
           (r' = r\<lparr>Estado := Enviada\<rparr> \<or>
            r' = r\<lparr>Estado := Fallida,
                    Error := ''N'' @ u_acento @ ''mero no v'' @ a_acento @ ''lido''\<rparr>)"
proof -
  obtain r where r: "map_of (registrosSMS (smss (snd (registrar_sms a d m w)) a))
             (fst (registrar_sms a d m w)) = Some r" "Estado r = Pendiente"
    using registrar_sms_pendiente [of a d m w] by blast
  show ?thesis
    by (rule exI [of _ r]) (auto simp: r entregar_sms_registros)
qed

lemma envio_en_dos_pasos:
  "ValidarDestinatario_email d = None \<and> ValidarMensaje_email m = None \<Longrightarrow>
   EnviarNotificacion (PEmail a) d m w =
     entregar_email a (fst (registrar_email a d m (anotar_llamada (PEmail a) d m w))) d
       (snd (registrar_email a d m (anotar_llamada (PEmail a) d m w)))"
  "ValidarDestinatario_sms d = None \<and> ValidarMensaje_sms m = None \<Longrightarrow>
   EnviarNotificacion (PSMS a) d m w =
     entregar_sms a (fst (registrar_sms a d m (anotar_llamada (PSMS a) d m w))) d
       (snd (registrar_sms a d m (anotar_llamada (PSMS a) d m w)))"
  by (simp_all add: EnviarNotificacion.simps EnviarNotificacion_email_def
      EnviarNotificacion_sms_def Let_def split_def)

text \<open>
  C6 (amended statement). In the email and SMS backends a send stores its record in
  state \<open>Pendiente\<close>, and the delivery step of the same call changes that record to
  \<open>Enviada\<close>, or to \<open>Fallida\<close> with its error text, and leaves the entry of every other
  identifier as it was before the call. Across any operation of the core in which
  every send meets a fresh identifier, each record of a store is still there,
  unchanged, afterwards. In every case a record that an operation has put in a store
  is in state \<open>Enviada\<close> or \<open>Fallida\<close>, a record found in state \<open>Entregada\<close> afterwards
  was there before, and the constructors start from an empty store.
\<close>

theorem C6_ciclo_de_vida:
  "(\<exists>r r'. map_of (registros (emails (snd (registrar_email a d m w)) a))
             (fst (registrar_email a d m w)) = Some r \<and> Estado r = Pendiente \<and>
           map_of (registros (emails (snd (entregar_email a (fst (registrar_email a d m w)) d
                                            (snd (registrar_email a d m w)))) a))
             (fst (registrar_email a d m w)) = Some r' \<and>
           (r' = r\<lparr>Estado := Enviada\<rparr> \<or>
            r' = r\<lparr>Estado := Fallida, Error := ''Servidor SMTP no disponible''\<rparr>)) \<and>
   (j \<noteq> fst (registrar_email a d m w) \<longrightarrow>
      map_of (registros (emails (snd (entregar_email a (fst (registrar_email a d m w)) d
                                       (snd (registrar_email a d m w)))) a)) j
        = map_of (registros (emails w a)) j) \<and>
   (ValidarDestinatario_email d = None \<and> ValidarMensaje_email m = None \<longrightarrow>
      EnviarNotificacion (PEmail a) d m w =
        entregar_email a (fst (registrar_email a d m (anotar_llamada (PEmail a) d m w))) d
          (snd (registrar_email a d m (anotar_llamada (PEmail a) d m w)))) \<and>
   (\<exists>r r'. map_of (registrosSMS (smss (snd (registrar_sms a d m w)) a))
             (fst (registrar_sms a d m w)) = Some r \<and> Estado r = Pendiente \<and>
           map_of (registrosSMS (smss (snd (entregar_sms a (fst (registrar_sms a d m w)) d
                                            (snd (registrar_sms a d m w)))) a))
             (fst (registrar_sms a d m w)) = Some r' \<and>
           (r' = r\<lparr>Estado := Enviada\<rparr> \<or>
            r' = r\<lparr>Estado := Fallida,
                    Error := ''N'' @ u_acento @ ''mero no v'' @ a_acento @ ''lido''\<rparr>)) \<and>
   (j \<noteq> fst (registrar_sms a d m w) \<longrightarrow>
      map_of (registrosSMS (smss (snd (entregar_sms a (fst (registrar_sms a d m w)) d
                                       (snd (registrar_sms a d m w)))) a)) j
        = map_of (registrosSMS (smss w a)) j) \<and>
   (ValidarDestinatario_sms d = None \<and> ValidarMensaje_sms m = None \<longrightarrow>
      EnviarNotificacion (PSMS a) d m w =
        entregar_sms a (fst (registrar_sms a d m (anotar_llamada (PSMS a) d m w))) d
          (snd (registrar_sms a d m (anotar_llamada (PSMS a) d m w)))) \<and>
   (identificadores_frescos op w \<and> map_of (registros_de rt w) j = Some r0 \<longrightarrow>
      map_of (registros_de rt (ejecutar op w)) j = Some r0) \<and>
   (map_of (registros_de rt (ejecutar op w)) j = Some r1 \<and>
    map_of (registros_de rt w) j \<noteq> Some r1 \<longrightarrow>
      Estado r1 = Enviada \<or> Estado r1 = Fallida) \<and>
   (map_of (registros_de rt (ejecutar op w)) j = Some r1 \<and> Estado r1 = Entregada \<longrightarrow>
      map_of (registros_de rt w) j = Some r1) \<and>
   registros (emails (NuevoEmailNotificador a srv prt usr pwd w) a) = [] \<and>
   registrosSMS (smss (NuevoSMSNotificador a k prov w) a) = []"
proof (intro conjI impI)
  show "\<exists>r r'. map_of (registros (emails (snd (registrar_email a d m w)) a))
             (fst (registrar_email a d m w)) = Some r \<and> Estado r = Pendiente \<and>
           map_of (registros (emails (snd (entregar_email a (fst (registrar_email a d m w)) d
                                            (snd (registrar_email a d m w)))) a))
             (fst (registrar_email a d m w)) = Some r' \<and>
           (r' = r\<lparr>Estado := Enviada\<rparr> \<or>
            r' = r\<lparr>Estado := Fallida, Error := ''Servidor SMTP no disponible''\<rparr>)"
    by (rule registrar_entregar_email)
  show "\<exists>r r'. map_of (registrosSMS (smss (snd (registrar_sms a d m w)) a))
             (fst (registrar_sms a d m w)) = Some r \<and> Estado r = Pendiente \<and>
           map_of (registrosSMS (smss (snd (entregar_sms a (fst (registrar_sms a d m w)) d
                                            (snd (registrar_sms a d m w)))) a))
             (fst (registrar_sms a d m w)) = Some r' \<and>
           (r' = r\<lparr>Estado := Enviada\<rparr> \<or>
            r' = r\<lparr>Estado := Fallida,
                    Error := ''N'' @ u_acento @ ''mero no v'' @ a_acento @ ''lido''\<rparr>)"
    by (rule registrar_entregar_sms)
  show "registros (emails (NuevoEmailNotificador a srv prt usr pwd w) a) = []"
    by (simp add: NuevoEmailNotificador_def)
  show "registrosSMS (smss (NuevoSMSNotificador a k prov w) a) = []"
    by (simp add: NuevoSMSNotificador_def)
  have ev: "evoluciona_en j (registros_de rt w) (registros_de rt (ejecutar op w))"
    by (rule evoluciona_ejecutar)
  {
    assume "j \<noteq> fst (registrar_email a d m w)"
    then show "map_of (registros (emails (snd (entregar_email a (fst (registrar_email a d m w)) d
                                       (snd (registrar_email a d m w)))) a)) j
        = map_of (registros (emails w a)) j"
      by (simp add: entregar_email_registros registrar_email_otros)
  }
  {
    assume "j \<noteq> fst (registrar_sms a d m w)"
    then show "map_of (registrosSMS (smss (snd (entregar_sms a (fst (registrar_sms a d m w)) d
                                       (snd (registrar_sms a d m w)))) a)) j
        = map_of (registrosSMS (smss w a)) j"
      by (simp add: entregar_sms_registros registrar_sms_otros)
  }
  {
    assume "ValidarDestinatario_email d = None \<and> ValidarMensaje_email m = None"
    then show "EnviarNotificacion (PEmail a) d m w =
        entregar_email a (fst (registrar_email a d m (anotar_llamada (PEmail a) d m w))) d
          (snd (registrar_email a d m (anotar_llamada (PEmail a) d m w)))"
      by (rule envio_en_dos_pasos)
  }
  {
    assume "ValidarDestinatario_sms d = None \<and> ValidarMensaje_sms m = None"
    then show "EnviarNotificacion (PSMS a) d m w =
        entregar_sms a (fst (registrar_sms a d m (anotar_llamada (PSMS a) d m w))) d
          (snd (registrar_sms a d m (anotar_llamada (PSMS a) d m w)))"
      by (rule envio_en_dos_pasos)
  }
  {
    assume "identificadores_frescos op w \<and> map_of (registros_de rt w) j = Some r0"
    then show "map_of (registros_de rt (ejecutar op w)) j = Some r0"
      using fresco_ejecutar by blast
  }
  {
    assume "map_of (registros_de rt (ejecutar op w)) j = Some r1 \<and>
            map_of (registros_de rt w) j \<noteq> Some r1"
    then show "Estado r1 = Enviada \<or> Estado r1 = Fallida"
      using ev by (auto simp: evoluciona_en_def split: option.splits)
  }
  {
    assume "map_of (registros_de rt (ejecutar op w)) j = Some r1 \<and> Estado r1 = Entregada"
    then show "map_of (registros_de rt w) j = Some r1"
      using ev by (auto simp: evoluciona_en_def split: option.splits)
  }
qed

lemma creado_email:
  assumes "map_of (registros (emails (snd (EnviarNotificacion (PEmail a) d m w)) a)) i = Some r"
    "map_of (registros (emails w a)) i \<noteq> Some r"
  shows "(Estado r = Enviada \<or> Estado r = Fallida) \<and>
         (fst (EnviarNotificacion (PEmail a) d m w) = None \<longleftrightarrow> Estado r = Enviada)"
proof (cases "ValidarDestinatario_email d = None \<and> ValidarMensaje_email m = None")
  case True
  then show ?thesis
    using assms
    by (auto simp: email_valido_registros email_valido_error update_conv' split: if_splits)
next
  case False
  then have inv: "ValidarDestinatario_email d \<noteq> None \<or> ValidarMensaje_email m \<noteq> None" by simp
  have "emails (snd (EnviarNotificacion (PEmail a) d m w)) = emails w"
    by (rule emails_EnviarNotificacion_otros [OF disjI2 [OF inv]])
  then show ?thesis using assms by simp
qed

lemma creado_sms:
  assumes "map_of (registrosSMS (smss (snd (EnviarNotificacion (PSMS a) d m w)) a)) i = Some r"
    "map_of (registrosSMS (smss w a)) i \<noteq> Some r"
  shows "(Estado r = Enviada \<or> Estado r = Fallida) \<and>
         (fst (EnviarNotificacion (PSMS a) d m w) = None \<longleftrightarrow> Estado r = Enviada)"
proof (cases "ValidarDestinatario_sms d = None \<and> ValidarMensaje_sms m = None")
  case True
  then show ?thesis
    using assms
    by (auto simp: sms_valido_registros sms_valido_error update_conv' split: if_splits)
next
  case False
  then have inv: "ValidarDestinatario_sms d \<noteq> None \<or> ValidarMensaje_sms m \<noteq> None" by simp
  have "smss (snd (EnviarNotificacion (PSMS a) d m w)) = smss w"
    by (rule smss_EnviarNotificacion_otros [OF disjI2 [OF inv]])
  then show ?thesis using assms by simp
qed

text \<open>
  C7. For a backend with a \<^verbatim>\<open>Rastreador\<close>: when a send has put a record \<open>r\<close> under
  identifier \<open>i\<close> in its store (the entry was not there before the call), then
  \<^verbatim>\<open>ObtenerEstado\<close> of \<open>i\<close>, called next, succeeds and returns the state of \<open>r\<close>, which
  is \<open>Enviada\<close> or \<open>Fallida\<close>, and \<open>Enviada\<close> exactly when the send returned no error.
\<close>

theorem C7_estado_tras_envio:
  assumes "como_Rastreador n = Some rt"
    and "EnviarNotificacion n d m w = (err, w')"
    and "map_of (registros_de rt w') i = Some r"
    and "map_of (registros_de rt w) i \<noteq> Some r"
  shows "ObtenerEstado rt i w' = ((estado_string (Estado r), None), w') \<and>
         (Estado r = Enviada \<or> Estado r = Fallida) \<and>
         (err = None \<longleftrightarrow> Estado r = Enviada)"
proof (cases n)
  case (PEmail a)
  then have rt: "rt = REmail a" using assms(1) by simp
  have w': "w' = snd (EnviarNotificacion (PEmail a) d m w)"
    and err: "err = fst (EnviarNotificacion (PEmail a) d m w)"
    using assms(2) PEmail by simp_all
  have "ObtenerEstado rt i w' = ((estado_string (Estado r), None), w')"
    using assms(3) by (simp add: rt ObtenerEstado_email_def)
  moreover have "(Estado r = Enviada \<or> Estado r = Fallida) \<and> (err = None \<longleftrightarrow> Estado r = Enviada)"
    using creado_email [of a d m w i r] assms(3,4) by (simp add: rt w' err)
  ultimately show ?thesis by simp
next
  case (PSMS a)
  then have rt: "rt = RSMS a" using assms(1) by simp
  have w': "w' = snd (EnviarNotificacion (PSMS a) d m w)"
    and err: "err = fst (EnviarNotificacion (PSMS a) d m w)"
    using assms(2) PSMS by simp_all
  have "ObtenerEstado rt i w' = ((estado_string (Estado r), None), w')"
    using assms(3) by (simp add: rt ObtenerEstado_sms_def)
  moreover have "(Estado r = Enviada \<or> Estado r = Fallida) \<and> (err = None \<longleftrightarrow> Estado r = Enviada)"
    using creado_sms [of a d m w i r] assms(3,4) by (simp add: rt w' err)
  ultimately show ?thesis by simp
next
  case (PSlack a)
  then show ?thesis using assms(1) by simp
qed

section \<open>Examples\<close>

text \<open>Evaluation on the example world.\<close>

lemma mundo_inicial_campos [simp]:
  "reloj (mundo_inicial t0) k = t0 + 1000001 * int k"
  "lecturas (mundo_inicial t0) = 0"
  "registros (emails (mundo_inicial t0) a) = []"
  "registrosSMS (smss (mundo_inicial t0) a) = []"
  "llamadas (mundo_inicial t0) = []"
  by (simp_all add: mundo_inicial_def)

lemma fmt_d_ejemplos:
  "fmt_d 1700000000000000002 = ''1700000000000000002''"
  "fmt_d 1700000000005000007 = ''1700000000005000007''"
  by (simp_all add: fmt_d_def digitos.simps [of "numeral k" for k] digitos.simps [of "Suc 0"])

lemma valido_ejemplo_email:
  "ValidarDestinatario_email ''admin@empresa.com'' = None"
  "ValidarMensaje_email ''hola'' = None"
  "ValidarDestinatario_email ''user'' = Some (''email inv'' @ a_acento @ ''lido: debe contener @'')"
  "ValidarMensaje_email ''hi'' = None"
  by (simp_all add: ValidarDestinatario_email_def ValidarMensaje_email_def Contains_def)

lemma valido_ejemplo_sms:
  "ValidarDestinatario_sms ''admin@empresa.com''
     = Some (''n'' @ u_acento @ ''mero debe empezar con + o 0'')"
  "ValidarDestinatario_sms ''user''
     = Some (''n'' @ u_acento @ ''mero de tel'' @ e_acento @ ''fono muy corto'')"
  "ValidarMensaje_sms ''hi'' = None"
  "ValidarMensaje_sms ''hola'' = None"
  "ValidarDestinatario_sms ''+54911234567'' = None"
  by (simp_all add: ValidarDestinatario_sms_def ValidarMensaje_sms_def)




text \<open>
  C9 on a destination that both the email and the SMS backend reject.
\<close>

theorem C9_validacion_en_el_envio_witness:
  "fst (EnviarNotificacion (PEmail 0) ''user'' ''hi'' (mundo_inicial 1700000000000000002))
     = Some (''email inv'' @ a_acento @ ''lido: debe contener @'') \<and>
   fst (EnviarATodos \<lparr>notificadores = [PEmail 0, PSMS 0, PSlack 0], logger = Some (LEmail 0)\<rparr>
          ''user'' ''hi'' (mundo_inicial 1700000000000000002)) ''*main.EmailNotificador''
     = Some (Some (''email inv'' @ a_acento @ ''lido: debe contener @'')) \<and>
   emails (snd (EnviarATodos \<lparr>notificadores = [PEmail 0, PSMS 0, PSlack 0], logger = Some (LEmail 0)\<rparr>
          ''user'' ''hi'' (mundo_inicial 1700000000000000002)))
     = emails (mundo_inicial 1700000000000000002) \<and>
   fst (EnviarATodos \<lparr>notificadores = [PEmail 0, PSMS 0, PSlack 0], logger = Some (LEmail 0)\<rparr>
          ''user'' ''hi'' (mundo_inicial 1700000000000000002)) ''*main.SMSNotificador''
     = Some (Some (''n'' @ u_acento @ ''mero de tel'' @ e_acento @ ''fono muy corto'')) \<and>
   smss (snd (EnviarATodos \<lparr>notificadores = [PEmail 0, PSMS 0, PSlack 0], logger = Some (LEmail 0)\<rparr>
          ''user'' ''hi'' (mundo_inicial 1700000000000000002)))
     = smss (mundo_inicial 1700000000000000002)"
  using C9_validacion_en_el_envio [where d = "''user''" and m = "''hi''"
      and ee = "''email inv'' @ a_acento @ ''lido: debe contener @''" and a = 0
      and w = "mundo_inicial 1700000000000000002"
      and sn = "\<lparr>notificadores = [PEmail 0, PSMS 0, PSlack 0], logger = Some (LEmail 0)\<rparr>"
      and es = "''n'' @ u_acento @ ''mero de tel'' @ e_acento @ ''fono muy corto''" and b = 0]
  by (simp add: valido_ejemplo_email valido_ejemplo_sms)

text \<open>
  C4 on a message of 1001 bytes.
\<close>

theorem C4_mensaje_demasiado_largo_witness:
  "emails (snd (EnviarConValidacion
        \<lparr>notificadores = [PEmail 0, PSMS 0, PSlack 0], logger = None\<rparr>
        ''admin@empresa.com'' (replicate 1001 CHR ''x'') (mundo_inicial 1700000000000000002)))
     = emails (mundo_inicial 1700000000000000002) \<and>
   fst (EnviarConValidacion
        \<lparr>notificadores = [PEmail 0, PSMS 0, PSlack 0], logger = None\<rparr>
        ''admin@empresa.com'' (replicate 1001 CHR ''x'') (mundo_inicial 1700000000000000002))
       ''*main.EmailNotificador''
     = Some (Some (''validaci'' @ o_acento @ ''n fall'' @ o_acento
                   @ '': mensaje muy largo (m'' @ a_acento @ ''ximo 1000 caracteres)'')) \<and>
   smss (snd (EnviarConValidacion
        \<lparr>notificadores = [PEmail 0, PSMS 0, PSlack 0], logger = None\<rparr>
        ''admin@empresa.com'' (replicate 1001 CHR ''x'') (mundo_inicial 1700000000000000002)))
     = smss (mundo_inicial 1700000000000000002) \<and>
   fst (EnviarConValidacion
        \<lparr>notificadores = [PEmail 0, PSMS 0, PSlack 0], logger = None\<rparr>
        ''admin@empresa.com'' (replicate 1001 CHR ''x'') (mundo_inicial 1700000000000000002))
       ''*main.SMSNotificador''
     = Some (Some (''validaci'' @ o_acento @ ''n fall'' @ o_acento
                   @ '': mensaje SMS muy largo (m'' @ a_acento @ ''ximo 160 caracteres)''))"
  using C4_mensaje_demasiado_largo [where m = "replicate 1001 CHR ''x''"
      and sn = "\<lparr>notificadores = [PEmail 0, PSMS 0, PSlack 0], logger = None\<rparr>"
      and d = "''admin@empresa.com''" and w = "mundo_inicial 1700000000000000002"
      and a = 0 and b = 0]
  by simp

lemma fmt_d_ejemplo_falla:
  "fmt_d 1700000000000000007 = ''1700000000000000007''"
  by (simp add: fmt_d_def digitos.simps [of "numeral k" for k] digitos.simps [of "Suc 0"])

lemma registrar_ident:
  "fst (registrar_email a d m w) = ''email_'' @ fmt_d (reloj w (lecturas w))"
  "fst (registrar_sms a d m w) = ''sms_'' @ fmt_d (reloj w (lecturas w))"
  by (simp_all add: registrar_email_def registrar_sms_def ahora_def Let_def split_def)

text \<open>
  C7 on a send that succeeds and, with another first clock reading, on one that fails.
\<close>

theorem C7_estado_tras_envio_witness:
  "ObtenerEstado (REmail 0) ''email_1700000000000000002''
     (snd (EnviarNotificacion (PEmail 0) ''admin@empresa.com'' ''hola''
             (mundo_inicial 1700000000000000002)))
     = ((''enviada'', None),
        snd (EnviarNotificacion (PEmail 0) ''admin@empresa.com'' ''hola''
               (mundo_inicial 1700000000000000002))) \<and>
   fst (EnviarNotificacion (PEmail 0) ''admin@empresa.com'' ''hola''
          (mundo_inicial 1700000000000000002)) = None \<and>
   ObtenerEstado (REmail 0) ''email_1700000000000000007''
     (snd (EnviarNotificacion (PEmail 0) ''admin@empresa.com'' ''hola''
             (mundo_inicial 1700000000000000007)))
     = ((''fallida'', None),
        snd (EnviarNotificacion (PEmail 0) ''admin@empresa.com'' ''hola''
               (mundo_inicial 1700000000000000007))) \<and>
   fst (EnviarNotificacion (PEmail 0) ''admin@empresa.com'' ''hola''
          (mundo_inicial 1700000000000000007)) \<noteq> None"
proof -
  let ?d = "''admin@empresa.com''" and ?m = "''hola''"
  let ?w = "mundo_inicial 1700000000000000002"
  let ?r = "\<lparr>ID = ''email_1700000000000000002'', Tipo = Email, Destinatario = ?d,
             Mensaje = ?m, Estado = Enviada, Timestamp = 1700000000001000003,
             Intentos = 1, Error = []\<rparr>"
  let ?v = "mundo_inicial 1700000000000000007"
  let ?s = "\<lparr>ID = ''email_1700000000000000007'', Tipo = Email, Destinatario = ?d,
             Mensaje = ?m, Estado = Fallida, Timestamp = 1700000000001000008,
             Intentos = 1, Error = ''Servidor SMTP no disponible''\<rparr>"
  have n: "como_Rastreador (PEmail 0) = Some (REmail 0)" by simp
  have e1: "EnviarNotificacion (PEmail 0) ?d ?m ?w
            = (fst (EnviarNotificacion (PEmail 0) ?d ?m ?w),
               snd (EnviarNotificacion (PEmail 0) ?d ?m ?w))" by simp
  have r1: "map_of (registros_de (REmail 0) (snd (EnviarNotificacion (PEmail 0) ?d ?m ?w)))
              ''email_1700000000000000002'' = Some ?r"
    by (simp add: email_valido_registros valido_ejemplo_email fmt_d_ejemplos)
  have a1: "map_of (registros_de (REmail 0) ?w) ''email_1700000000000000002'' \<noteq> Some ?r"
    by simp
  have e2: "EnviarNotificacion (PEmail 0) ?d ?m ?v
            = (fst (EnviarNotificacion (PEmail 0) ?d ?m ?v),
               snd (EnviarNotificacion (PEmail 0) ?d ?m ?v))" by simp
  have r2: "map_of (registros_de (REmail 0) (snd (EnviarNotificacion (PEmail 0) ?d ?m ?v)))
              ''email_1700000000000000007'' = Some ?s"
    by (simp add: email_valido_registros valido_ejemplo_email fmt_d_ejemplo_falla)
  have a2: "map_of (registros_de (REmail 0) ?v) ''email_1700000000000000007'' \<noteq> Some ?s"
    by simp
  show ?thesis
    using C7_estado_tras_envio [OF n e1 r1 a1] C7_estado_tras_envio [OF n e2 r2 a2]
    by simp
qed

lemma reloj_repetido [simp]:
  "reloj mundo_reloj_repetido 0 = 1700000000000000002"
  "reloj mundo_reloj_repetido (Suc 0) = 1700000000000001002"
  "reloj mundo_reloj_repetido 3 = 1700000000100003003"
  "reloj mundo_reloj_repetido 5 = 1700000000000000002"
  "reloj mundo_reloj_repetido 6 = 1700000000000001002"
  "reloj mundo_reloj_repetido 8 = 1700000000100003010"
  "lecturas mundo_reloj_repetido = 0"
  "registros (emails mundo_reloj_repetido a) = []"
  by (simp_all add: mundo_reloj_repetido_def mundo_inicial_def)

lemma valido_ejemplo_uno_dos:
  "ValidarDestinatario_email ''uno@empresa.com'' = None"
  "ValidarDestinatario_email ''dos@empresa.com'' = None"
  "ValidarMensaje_email ''uno'' = None"
  "ValidarMensaje_email ''dos'' = None"
  by (simp_all add: ValidarDestinatario_email_def ValidarMensaje_email_def Contains_def)

lemma reloj_repetido_primero:
  "registros (emails (snd (EnviarNotificacion (PEmail 0) ''uno@empresa.com'' ''uno''
                             mundo_reloj_repetido)) 0)
     = [(''email_1700000000000000002'',
         \<lparr>ID = ''email_1700000000000000002'', Tipo = Email,
          Destinatario = ''uno@empresa.com'', Mensaje = ''uno'', Estado = Enviada,
          Timestamp = 1700000000000001002, Intentos = 1, Error = []\<rparr>)]"
  "fst (EnviarNotificacion (PEmail 0) ''uno@empresa.com'' ''uno'' mundo_reloj_repetido) = None"
  by (simp_all add: email_valido_registros email_valido_error valido_ejemplo_uno_dos
      fmt_d_ejemplos)

lemma reloj_repetido_segundo:
  "registros (emails (snd (EnviarNotificacion (PEmail 0) ''dos@empresa.com'' ''dos''
       (snd (EnviarNotificacion (PEmail 0) ''uno@empresa.com'' ''uno''
               mundo_reloj_repetido)))) 0)
     = [(''email_1700000000000000002'',
         \<lparr>ID = ''email_1700000000000000002'', Tipo = Email,
          Destinatario = ''dos@empresa.com'', Mensaje = ''dos'', Estado = Fallida,
          Timestamp = 1700000000000001002, Intentos = 1,
          Error = ''Servidor SMTP no disponible''\<rparr>)]"
  "fst (EnviarNotificacion (PEmail 0) ''dos@empresa.com'' ''dos''
       (snd (EnviarNotificacion (PEmail 0) ''uno@empresa.com'' ''uno''
               mundo_reloj_repetido))) = Some ''fallo al enviar email''"
  by (simp_all add: email_valido_registros email_valido_error email_valido_reloj
      valido_ejemplo_uno_dos fmt_d_ejemplos reloj_repetido_primero)

text \<open>
  C3 as first stated fails in three ways: the email backend refuses a destination
  without \<^verbatim>\<open>@\<close> and its store, empty before, is empty after; with the clock set back
  between two sends the second send writes under the identifier of the first and the
  store still holds one record; and a send of the Slack backend leaves every store
  as it was.
\<close>

theorem C3_contraejemplo:
  "registros (emails (mundo_inicial 1700000000000000002) 0) = [] \<and>
   fst (EnviarNotificacion (PEmail 0) ''user'' ''hi'' (mundo_inicial 1700000000000000002))
     = Some (''email inv'' @ a_acento @ ''lido: debe contener @'') \<and>
   registros (emails (snd (EnviarNotificacion (PEmail 0) ''user'' ''hi''
                             (mundo_inicial 1700000000000000002))) 0) = [] \<and>
   length (registros (emails (snd (EnviarNotificacion (PEmail 0) ''uno@empresa.com'' ''uno''
                                     mundo_reloj_repetido)) 0)) = 1 \<and>
   fst (EnviarNotificacion (PEmail 0) ''dos@empresa.com'' ''dos''
       (snd (EnviarNotificacion (PEmail 0) ''uno@empresa.com'' ''uno''
               mundo_reloj_repetido))) = Some ''fallo al enviar email'' \<and>
   length (registros (emails (snd (EnviarNotificacion (PEmail 0) ''dos@empresa.com'' ''dos''
       (snd (EnviarNotificacion (PEmail 0) ''uno@empresa.com'' ''uno''
               mundo_reloj_repetido)))) 0)) = 1 \<and>
   fst (EnviarNotificacion (PSlack 0) ''user'' ''hi'' (mundo_inicial 1700000000000000002)) = None \<and>
   emails (snd (EnviarNotificacion (PSlack 0) ''user'' ''hi''
                  (mundo_inicial 1700000000000000002)))
     = emails (mundo_inicial 1700000000000000002) \<and>
   smss (snd (EnviarNotificacion (PSlack 0) ''user'' ''hi''
                  (mundo_inicial 1700000000000000002)))
     = smss (mundo_inicial 1700000000000000002)"
proof -
  have "emails (snd (EnviarNotificacion (PSlack 0) ''user'' ''hi''
                  (mundo_inicial 1700000000000000002)))
     = emails (mundo_inicial 1700000000000000002)"
    by (rule emails_EnviarNotificacion_otros) simp
  moreover have "smss (snd (EnviarNotificacion (PSlack 0) ''user'' ''hi''
                  (mundo_inicial 1700000000000000002)))
     = smss (mundo_inicial 1700000000000000002)"
    by (rule smss_EnviarNotificacion_otros) simp
  moreover have "fst (EnviarNotificacion (PSlack 0) ''user'' ''hi''
                    (mundo_inicial 1700000000000000002)) = None"
    by (simp add: EnviarNotificacion.simps EnviarNotificacion_slack_def Let_def)
  moreover have "fst (EnviarNotificacion (PEmail 0) ''user'' ''hi''
                    (mundo_inicial 1700000000000000002))
     = Some (''email inv'' @ a_acento @ ''lido: debe contener @'')"
    "registros (emails (snd (EnviarNotificacion (PEmail 0) ''user'' ''hi''
                             (mundo_inicial 1700000000000000002))) 0) = []"
    by (simp_all add: EnviarNotificacion.simps email_invalido valido_ejemplo_email
        anotar_llamada_def)
  ultimately show ?thesis
    by (simp add: reloj_repetido_primero reloj_repetido_segundo)
qed

text \<open>
  C3 in its amended statement: on a send that succeeds, on a send that meets its
  identifier in the store, on an SMS send, and on inputs that fail the checks.
\<close>

theorem C3_envio_registra_witness:
  "fst (EnviarNotificacion (PEmail 0) ''admin@empresa.com'' ''hola''
          (mundo_inicial 1700000000000000002)) = None \<and>
   lecturas (snd (EnviarNotificacion (PEmail 0) ''admin@empresa.com'' ''hola''
                    (mundo_inicial 1700000000000000002))) = 5 \<and>
   length (salida (snd (EnviarNotificacion (PEmail 0) ''admin@empresa.com'' ''hola''
                    (mundo_inicial 1700000000000000002)))) = 2 \<and>
   length (registros (emails (snd (EnviarNotificacion (PEmail 0) ''admin@empresa.com'' ''hola''
                                     (mundo_inicial 1700000000000000002))) 0)) = 1 \<and>
   length (registros (emails (snd (EnviarNotificacion (PEmail 0) ''dos@empresa.com'' ''dos''
       (snd (EnviarNotificacion (PEmail 0) ''uno@empresa.com'' ''uno''
               mundo_reloj_repetido)))) 0)) = 1 \<and>
   length (registrosSMS (smss (snd (EnviarNotificacion (PSMS 0) ''+54911234567'' ''hola''
                                     (mundo_inicial 1700000000000000002))) 0)) = 1 \<and>
   fst (EnviarNotificacion (PEmail 0) ''user'' ''hi'' (mundo_inicial 1700000000000000002))
     \<noteq> None \<and>
   snd (EnviarNotificacion (PEmail 0) ''user'' ''hi'' (mundo_inicial 1700000000000000002))
     = (mundo_inicial 1700000000000000002)\<lparr>llamadas := [(PEmail 0, ''user'', ''hi'')]\<rparr> \<and>
   fst (EnviarNotificacion (PSMS 0) ''user'' ''hi'' (mundo_inicial 1700000000000000002))
     \<noteq> None \<and>
   fst (EnviarNotificacion (PSlack 0) ''user'' ''hi'' (mundo_inicial 1700000000000000002))
     = None"
proof -
  let ?w0 = "mundo_inicial 1700000000000000002"
  let ?w1 = "snd (EnviarNotificacion (PEmail 0) ''uno@empresa.com'' ''uno''
               mundo_reloj_repetido)"
  have ocupado: "map_of (registros (emails ?w1 0))
                   (''email_'' @ fmt_d (reloj ?w1 (lecturas ?w1))) \<noteq> None"
    by (simp add: reloj_repetido_primero email_valido_reloj valido_ejemplo_uno_dos
        fmt_d_ejemplos)
  have largo: "length (registros (emails ?w1 0)) = 1"
    by (simp add: reloj_repetido_primero)
  have a: "fst (EnviarNotificacion (PEmail 0) ''admin@empresa.com'' ''hola'' ?w0) = None \<and>
        lecturas (snd (EnviarNotificacion (PEmail 0) ''admin@empresa.com'' ''hola'' ?w0)) = 5 \<and>
        length (salida (snd (EnviarNotificacion (PEmail 0) ''admin@empresa.com'' ''hola'' ?w0))) = 2 \<and>
        length (registros (emails (snd (EnviarNotificacion (PEmail 0) ''admin@empresa.com''
                                          ''hola'' ?w0)) 0)) = 1"
    using C3_envio_registra [where d = "''admin@empresa.com''" and m = "''hola''" and a = 0
        and w = ?w0]
    by (auto simp: valido_ejemplo_email mundo_inicial_def)
  have b: "length (registros (emails (snd (EnviarNotificacion (PEmail 0) ''dos@empresa.com''
                                          ''dos'' ?w1)) 0)) = 1"
    using C3_envio_registra [where d = "''dos@empresa.com''" and m = "''dos''" and a = 0
        and w = ?w1] ocupado largo
    by (simp add: valido_ejemplo_uno_dos)
  have c: "length (registrosSMS (smss (snd (EnviarNotificacion (PSMS 0) ''+54911234567''
                                          ''hola'' ?w0)) 0)) = 1"
    using C3_envio_registra [where d = "''+54911234567''" and m = "''hola''" and a = 0
        and w = ?w0]
    by (simp add: valido_ejemplo_sms)
  have d: "fst (EnviarNotificacion (PEmail 0) ''user'' ''hi'' ?w0) \<noteq> None \<and>
        snd (EnviarNotificacion (PEmail 0) ''user'' ''hi'' ?w0)
          = ?w0\<lparr>llamadas := [(PEmail 0, ''user'', ''hi'')]\<rparr> \<and>
        fst (EnviarNotificacion (PSMS 0) ''user'' ''hi'' ?w0) \<noteq> None \<and>
        fst (EnviarNotificacion (PSlack 0) ''user'' ''hi'' ?w0) = None"
    using C3_envio_registra [where d = "''user''" and m = "''hi''" and a = 0 and w = ?w0]
    by (simp add: valido_ejemplo_email valido_ejemplo_sms)
  show ?thesis using a b c d by simp
qed

text \<open>
  C6 as first stated fails when the clock is set back between two sends: the record
  of the first send, in state \<open>Enviada\<close>, is no longer in the store afterwards; under
  its identifier stands the record of the second send, in state \<open>Fallida\<close>.
\<close>

theorem C6_contraejemplo:
  "map_of (registros (emails (snd (EnviarNotificacion (PEmail 0) ''uno@empresa.com'' ''uno''
                                     mundo_reloj_repetido)) 0)) ''email_1700000000000000002''
     = Some \<lparr>ID = ''email_1700000000000000002'', Tipo = Email,
             Destinatario = ''uno@empresa.com'', Mensaje = ''uno'', Estado = Enviada,
             Timestamp = 1700000000000001002, Intentos = 1, Error = []\<rparr> \<and>
   registros (emails (ejecutar (OpEnviarNotificacion (PEmail 0) ''dos@empresa.com'' ''dos'')
       (snd (EnviarNotificacion (PEmail 0) ''uno@empresa.com'' ''uno''
               mundo_reloj_repetido))) 0)
     = [(''email_1700000000000000002'',
         \<lparr>ID = ''email_1700000000000000002'', Tipo = Email,
          Destinatario = ''dos@empresa.com'', Mensaje = ''dos'', Estado = Fallida,
          Timestamp = 1700000000000001002, Intentos = 1,
          Error = ''Servidor SMTP no disponible''\<rparr>)]"
  by (simp add: reloj_repetido_primero reloj_repetido_segundo)

text \<open>
  C6 in its amended statement: a second send and a broadcast on a store that holds a
  record, each with a fresh identifier, and a store in which a record in state
  \<open>Entregada\<close> has been placed by hand.
\<close>

theorem C6_ciclo_de_vida_witness:
  "map_of (registros_de (REmail 0) (snd (EnviarNotificacion (PEmail 0) ''admin@empresa.com'' ''hola''
                (mundo_inicial 1700000000000000002)))) ''email_1700000000000000002''
     = Some \<lparr>ID = ''email_1700000000000000002'', Tipo = Email,
             Destinatario = ''admin@empresa.com'', Mensaje = ''hola'', Estado = Enviada,
             Timestamp = 1700000000001000003, Intentos = 1, Error = []\<rparr> \<and>
   identificadores_frescos (OpEnviarNotificacion (PEmail 0) ''otro@empresa.com'' ''adios'') (snd (EnviarNotificacion (PEmail 0) ''admin@empresa.com'' ''hola''
                (mundo_inicial 1700000000000000002))) \<and>
   map_of (registros_de (REmail 0) (ejecutar (OpEnviarNotificacion (PEmail 0) ''otro@empresa.com'' ''adios'') (snd (EnviarNotificacion (PEmail 0) ''admin@empresa.com'' ''hola''
                (mundo_inicial 1700000000000000002))))) ''email_1700000000000000002''
     = Some \<lparr>ID = ''email_1700000000000000002'', Tipo = Email,
             Destinatario = ''admin@empresa.com'', Mensaje = ''hola'', Estado = Enviada,
             Timestamp = 1700000000001000003, Intentos = 1, Error = []\<rparr> \<and>
   identificadores_frescos (OpEnviarATodos \<lparr>notificadores = [PEmail 0, PSlack 0], logger = None\<rparr>
                ''otro@empresa.com'' ''adios'') (snd (EnviarNotificacion (PEmail 0) ''admin@empresa.com'' ''hola''
                (mundo_inicial 1700000000000000002))) \<and>
   map_of (registros_de (REmail 0) (ejecutar (OpEnviarATodos \<lparr>notificadores = [PEmail 0, PSlack 0], logger = None\<rparr>
                ''otro@empresa.com'' ''adios'') (snd (EnviarNotificacion (PEmail 0) ''admin@empresa.com'' ''hola''
                (mundo_inicial 1700000000000000002))))) ''email_1700000000000000002''
     = Some \<lparr>ID = ''email_1700000000000000002'', Tipo = Email,
             Destinatario = ''admin@empresa.com'', Mensaje = ''hola'', Estado = Enviada,
             Timestamp = 1700000000001000003, Intentos = 1, Error = []\<rparr> \<and>
   Estado (the (map_of (registros_de (REmail 0) (ejecutar (OpEnviarNotificacion (PEmail 0) ''otro@empresa.com'' ''adios'') (snd (EnviarNotificacion (PEmail 0) ''admin@empresa.com'' ''hola''
                (mundo_inicial 1700000000000000002)))))
                  ''email_1700000000005000007'')) = Fallida \<and>
   map_of (registros_de (REmail 0) (ejecutar (OpEnviarNotificacion (PEmail 0) ''admin@empresa.com'' ''hola'') (poner_registros_email 0 (\<lambda>regs. [(''x'', \<lparr>ID = ''x'', Tipo = Email, Destinatario = ''a@b.c'', Mensaje = ''m'',
             Estado = Entregada, Timestamp = 0, Intentos = 1, Error = []\<rparr>)])
                (mundo_inicial 1700000000000000002)))) ''x''
     = Some \<lparr>ID = ''x'', Tipo = Email, Destinatario = ''a@b.c'', Mensaje = ''m'',
             Estado = Entregada, Timestamp = 0, Intentos = 1, Error = []\<rparr> \<and>
   map_of (registros_de (REmail 0) (poner_registros_email 0 (\<lambda>regs. [(''x'', \<lparr>ID = ''x'', Tipo = Email, Destinatario = ''a@b.c'', Mensaje = ''m'',
             Estado = Entregada, Timestamp = 0, Intentos = 1, Error = []\<rparr>)])
                (mundo_inicial 1700000000000000002))) ''x''
     = Some \<lparr>ID = ''x'', Tipo = Email, Destinatario = ''a@b.c'', Mensaje = ''m'',
             Estado = Entregada, Timestamp = 0, Intentos = 1, Error = []\<rparr>"
  (is "?P1 \<and> ?P2 \<and> ?P3 \<and> ?P4 \<and> ?P5 \<and> ?P6 \<and> ?P7 \<and> ?P8")
proof -
  let ?d = "''admin@empresa.com''" and ?m = "''hola''"
  let ?w0 = "mundo_inicial 1700000000000000002"
  let ?w1 = "snd (EnviarNotificacion (PEmail 0) ?d ?m ?w0)"
  let ?j = "''email_1700000000000000002''"
  let ?k = "''email_1700000000005000007''"
  let ?op1 = "OpEnviarNotificacion (PEmail 0) ''otro@empresa.com'' ''adios''"
  let ?rk = "the (map_of (registros_de (REmail 0) (ejecutar ?op1 ?w1)) ?k)"
  have otro: "ValidarDestinatario_email ''otro@empresa.com'' = None"
    "ValidarMensaje_email ''adios'' = None"
    by (simp_all add: ValidarDestinatario_email_def ValidarMensaje_email_def Contains_def)
  have regs1: "registros (emails ?w1 0) = [(?j, \<lparr>ID = ''email_1700000000000000002'', Tipo = Email,
             Destinatario = ''admin@empresa.com'', Mensaje = ''hola'', Estado = Enviada,
             Timestamp = 1700000000001000003, Intentos = 1, Error = []\<rparr>)]"
    by (simp add: email_valido_registros valido_ejemplo_email fmt_d_ejemplos)
  have p1: ?P1 by (simp add: regs1)
  have fresco: "identificador_fresco (PEmail 0) ''otro@empresa.com'' ''adios'' ?w1"
    by (simp add: otro regs1 email_valido_reloj valido_ejemplo_email fmt_d_ejemplos)
  have p2: ?P2 using fresco by simp
  have p4: ?P4 using fresco by (simp add: EnviarATodos_inicio_def)
  have p7: ?P7
    by (simp add: email_valido_registros valido_ejemplo_email poner_registros_email_def)
  have regs2: "registros (emails (snd (EnviarNotificacion (PEmail 0) ''otro@empresa.com''
                                         ''adios'' ?w1)) 0)
               = AList.update ?k
                   \<lparr>ID = ?k, Tipo = Email, Destinatario = ''otro@empresa.com'',
                    Mensaje = ''adios'', Estado = Fallida, Timestamp = 1700000000006000008,
                    Intentos = 1, Error = ''Servidor SMTP no disponible''\<rparr>
                   (registros (emails ?w1 0))"
    by (simp add: email_valido_registros [OF otro] email_valido_reloj valido_ejemplo_email
        fmt_d_ejemplos)
  have n1: "map_of (registros_de (REmail 0) (ejecutar ?op1 ?w1)) ?k = Some ?rk"
    by (simp add: regs2 update_conv')
  have n2: "map_of (registros_de (REmail 0) ?w1) ?k \<noteq> Some ?rk"
    by (simp add: regs1)
  have n3: "Estado ?rk \<noteq> Enviada"
    by (simp add: regs2 update_conv')
  note t1 = C6_ciclo_de_vida [where w = ?w1 and j = ?j and rt = "REmail 0" and op = ?op1
      and ?r0.0 = "\<lparr>ID = ''email_1700000000000000002'', Tipo = Email,
             Destinatario = ''admin@empresa.com'', Mensaje = ''hola'', Estado = Enviada,
             Timestamp = 1700000000001000003, Intentos = 1, Error = []\<rparr>"]
  note t2 = C6_ciclo_de_vida [where w = ?w1 and j = ?j and rt = "REmail 0"
      and op = "OpEnviarATodos \<lparr>notificadores = [PEmail 0, PSlack 0], logger = None\<rparr>
                ''otro@empresa.com'' ''adios''"
      and ?r0.0 = "\<lparr>ID = ''email_1700000000000000002'', Tipo = Email,
             Destinatario = ''admin@empresa.com'', Mensaje = ''hola'', Estado = Enviada,
             Timestamp = 1700000000001000003, Intentos = 1, Error = []\<rparr>"]
  note t3 = C6_ciclo_de_vida [where w = ?w1 and j = ?k and rt = "REmail 0" and op = ?op1
      and ?r1.0 = ?rk]
  note t4 = C6_ciclo_de_vida [where w = "poner_registros_email 0 (\<lambda>regs. [(''x'', \<lparr>ID = ''x'', Tipo = Email, Destinatario = ''a@b.c'', Mensaje = ''m'',
             Estado = Entregada, Timestamp = 0, Intentos = 1, Error = []\<rparr>)])
                (mundo_inicial 1700000000000000002)" and j = "''x''" and rt = "REmail 0"
      and op = "OpEnviarNotificacion (PEmail 0) ''admin@empresa.com'' ''hola''" and ?r1.0 = "\<lparr>ID = ''x'', Tipo = Email, Destinatario = ''a@b.c'', Mensaje = ''m'',
             Estado = Entregada, Timestamp = 0, Intentos = 1, Error = []\<rparr>"]
  have p3: ?P3
    by (rule mp [OF t1 [THEN conjunct2, THEN conjunct2, THEN conjunct2, THEN conjunct2,
        THEN conjunct2, THEN conjunct2, THEN conjunct1] conjI [OF p2 p1]])
  have p5: ?P5
    by (rule mp [OF t2 [THEN conjunct2, THEN conjunct2, THEN conjunct2, THEN conjunct2,
        THEN conjunct2, THEN conjunct2, THEN conjunct1] conjI [OF p4 p1]])
  have "Estado ?rk = Enviada \<or> Estado ?rk = Fallida"
    by (rule mp [OF t3 [THEN conjunct2, THEN conjunct2, THEN conjunct2, THEN conjunct2,
        THEN conjunct2, THEN conjunct2, THEN conjunct2, THEN conjunct1] conjI [OF n1 n2]])
  then have p6: ?P6 using n3 by simp
  have e: "Estado \<lparr>ID = ''x'', Tipo = Email, Destinatario = ''a@b.c'', Mensaje = ''m'',
             Estado = Entregada, Timestamp = 0, Intentos = 1, Error = []\<rparr> = Entregada" by simp
  have p8: ?P8
    by (rule mp [OF t4 [THEN conjunct2, THEN conjunct2, THEN conjunct2, THEN conjunct2,
        THEN conjunct2, THEN conjunct2, THEN conjunct2, THEN conjunct2, THEN conjunct1]
        conjI [OF p7 e]])
  show ?thesis by (intro conjI p1 p2 p3 p4 p5 p6 p7 p8)
qed

end
